theory Spec2Isabelle
  imports Main "HOL-Library.Word" "HOL-Library.AList"
begin

section \<open>Python values\<close>

text \<open>
  A Python \<open>str\<close> is a sequence of code points (lone surrogates included), a
  \<open>bytes\<close> value a sequence of octets.  String literals of the source are written
  \<open>py ''...''\<close>.
\<close>

type_synonym pystr = "nat list"
type_synonym byte = "8 word"
type_synonym bytes = "byte list"

definition py :: "string \<Rightarrow> pystr" where
  "py s = map of_char s"

text \<open>
  Exceptions.  The handlers of the source tell \<open>HTTPException\<close> (status code, detail)
  from every other \<open>Exception\<close>; of the latter only \<open>str(e)\<close> is ever used.
\<close>

datatype exn = HTTPException nat pystr | Error pystr

fun exn_str :: "exn \<Rightarrow> pystr" where
  "exn_str (Error m) = m"
| "exn_str (HTTPException c d) = d"

section \<open>Hex transport of the document content\<close>

text \<open>\<open>bytes.hex()\<close> (main.py, line 86): two lowercase hex digits per octet.\<close>

definition hexdigit :: "nat \<Rightarrow> nat" where
  "hexdigit n = (if n < 10 then 48 + n else 87 + n)"

definition hex :: "bytes \<Rightarrow> pystr" where
  "hex bs = concat (map (\<lambda>b. [hexdigit (unat b div 16), hexdigit (unat b mod 16)]) bs)"

text \<open>
  \<open>bytes.fromhex(s)\<close> (pdf_consumer.py, line 67): ASCII whitespace is skipped between
  octets, every octet is two hex digits of either case, anything else is a
  \<open>ValueError\<close>.
\<close>

definition is_space :: "nat \<Rightarrow> bool" where
  "is_space c \<longleftrightarrow> c = 32 \<or> (9 \<le> c \<and> c \<le> 13)"

definition digit_value :: "nat \<Rightarrow> nat option" where
  "digit_value c =
     (if 48 \<le> c \<and> c \<le> 57 then Some (c - 48)
      else if 97 \<le> c \<and> c \<le> 102 then Some (c - 87)
      else if 65 \<le> c \<and> c \<le> 70 then Some (c - 55)
      else None)"

text \<open>\<open>str(n)\<close> for a natural number.\<close>

fun decimal :: "nat \<Rightarrow> pystr" where
  "decimal n = (if n < 10 then [48 + n] else decimal (n div 10) @ [48 + n mod 10])"

declare decimal.simps [simp del]

text \<open>
  The \<open>ValueError\<close> names the position of the first code point that is not ASCII, if
  there is one, and otherwise of the first code point that should be a hex digit and is
  not (for a missing second digit, the end of the string; this is the text of CPython
  3.7 to 3.13).
\<close>

definition fromhex_error :: "nat \<Rightarrow> exn" where
  "fromhex_error i =
     Error (py ''non-hexadecimal number found in fromhex() arg at position '' @ decimal i)"

fun first_non_ascii :: "nat \<Rightarrow> pystr \<Rightarrow> nat option" where
  "first_non_ascii i [] = None"
| "first_non_ascii i (c # cs) = (if 128 \<le> c then Some i else first_non_ascii (Suc i) cs)"

fun fromhex_at :: "nat \<Rightarrow> pystr \<Rightarrow> exn + bytes" where
  "fromhex_at i [] = Inr []"
| "fromhex_at i [c] =
     (if is_space c then Inr []
      else case digit_value c of
             None \<Rightarrow> Inl (fromhex_error i)
           | Some hi \<Rightarrow> Inl (fromhex_error (Suc i)))"
| "fromhex_at i (c # d # cs) =
     (if is_space c then fromhex_at (Suc i) (d # cs)
      else case digit_value c of
             None \<Rightarrow> Inl (fromhex_error i)
           | Some hi \<Rightarrow>
              (case digit_value d of
                 None \<Rightarrow> Inl (fromhex_error (Suc i))
               | Some lo \<Rightarrow>
                  (case fromhex_at (i + 2) cs of
                     Inl e \<Rightarrow> Inl e
                   | Inr bs \<Rightarrow> Inr (of_nat (hi * 16 + lo) # bs))))"

definition fromhex :: "pystr \<Rightarrow> exn + bytes" where
  "fromhex s =
     (case first_non_ascii 0 s of
        Some i \<Rightarrow> Inl (fromhex_error i)
      | None \<Rightarrow> fromhex_at 0 s)"

section \<open>Text sanitisation\<close>

text \<open>
  \<open>s.encode('utf-8', errors='replace')\<close>: every code point is written in UTF-8, a lone
  surrogate (which has no UTF-8 form) is replaced by \<open>?\<close>.
\<close>

definition is_surrogate :: "nat \<Rightarrow> bool" where
  "is_surrogate c \<longleftrightarrow> 55296 \<le> c \<and> c \<le> 57343"

definition byte_of :: "nat \<Rightarrow> byte" where
  "byte_of n = of_nat n"

definition encode_cp :: "nat \<Rightarrow> bytes" where
  "encode_cp c =
     (if c < 128 then [byte_of c]
      else if c < 2048 then [byte_of (192 + c div 64), byte_of (128 + c mod 64)]
      else if is_surrogate c then [63]
      else if c < 65536 then
        [byte_of (224 + c div 4096), byte_of (128 + c div 64 mod 64), byte_of (128 + c mod 64)]
      else
        [byte_of (240 + c div 262144), byte_of (128 + c div 4096 mod 64),
         byte_of (128 + c div 64 mod 64), byte_of (128 + c mod 64)])"

definition encode_utf8_replace :: "pystr \<Rightarrow> bytes" where
  "encode_utf8_replace s = concat (map encode_cp s)"

text \<open>
  \<open>b.decode('utf-8')\<close>, strict: a \<open>UnicodeDecodeError\<close> on a bad start octet, a missing
  or bad continuation octet, an overlong form, a surrogate or a value above U+10FFFF.
\<close>

definition decode_error :: exn where
  "decode_error = Error (py ''utf-8 codec cannot decode bytes'')"

definition is_cont :: "byte \<Rightarrow> bool" where
  "is_cont b \<longleftrightarrow> 128 \<le> unat b \<and> unat b < 192"

definition cons_ok :: "nat \<Rightarrow> exn + pystr \<Rightarrow> exn + pystr" where
  "cons_ok c r = (case r of Inl e \<Rightarrow> Inl e | Inr s \<Rightarrow> Inr (c # s))"

fun decode_utf8 :: "bytes \<Rightarrow> exn + pystr" where
  "decode_utf8 [] = Inr []"
| "decode_utf8 (b0 # bs) =
     (if unat b0 < 128 then cons_ok (unat b0) (decode_utf8 bs)
      else if 194 \<le> unat b0 \<and> unat b0 < 224 then
        (case bs of
           b1 # r \<Rightarrow>
             if is_cont b1
             then cons_ok ((unat b0 - 192) * 64 + (unat b1 - 128)) (decode_utf8 r)
             else Inl decode_error
         | _ \<Rightarrow> Inl decode_error)
      else if 224 \<le> unat b0 \<and> unat b0 < 240 then
        (case bs of
           b1 # b2 # r \<Rightarrow>
             (let c = (unat b0 - 224) * 4096 + (unat b1 - 128) * 64 + (unat b2 - 128)
              in if is_cont b1 \<and> is_cont b2 \<and> 2048 \<le> c \<and> \<not> is_surrogate c
                 then cons_ok c (decode_utf8 r)
                 else Inl decode_error)
         | _ \<Rightarrow> Inl decode_error)
      else if 240 \<le> unat b0 \<and> unat b0 < 245 then
        (case bs of
           b1 # b2 # b3 # r \<Rightarrow>
             (let c = (unat b0 - 240) * 262144 + (unat b1 - 128) * 4096
                      + (unat b2 - 128) * 64 + (unat b3 - 128)
              in if is_cont b1 \<and> is_cont b2 \<and> is_cont b3 \<and> 65536 \<le> c \<and> c < 1114112
                 then cons_ok c (decode_utf8 r)
                 else Inl decode_error)
         | _ \<Rightarrow> Inl decode_error)
      else Inl decode_error)"

text \<open>
  The cleaning expression of pdf_consumer.py, lines 79 to 83:
  \<open>s.encode('utf-8', errors='replace').decode('utf-8')\<close>.
\<close>

definition clean :: "pystr \<Rightarrow> exn + pystr" where
  "clean s = decode_utf8 (encode_utf8_replace s)"

fun clean_all :: "pystr list \<Rightarrow> exn + pystr list" where
  "clean_all [] = Inr []"
| "clean_all (s # ss) =
     (case clean s of
        Inl e \<Rightarrow> Inl e
      | Inr c \<Rightarrow> (case clean_all ss of Inl e \<Rightarrow> Inl e | Inr cs \<Rightarrow> Inr (c # cs)))"

text \<open>What cleaning does to a string, stated without the detour through octets.\<close>

definition replace_surrogates :: "pystr \<Rightarrow> pystr" where
  "replace_surrogates s = map (\<lambda>c. if is_surrogate c then 63 else c) s"

text \<open>The type invariant of \<open>str\<close>: code points up to U+10FFFF.\<close>

definition is_str :: "pystr \<Rightarrow> bool" where
  "is_str s \<longleftrightarrow> list_all (\<lambda>c. c < 1114112) s"

section \<open>Decoded JSON values\<close>

text \<open>
  What \<open>json.loads\<close> returns and \<open>json.dumps\<close> accepts: \<open>None\<close>, booleans, integers,
  floats, strings, lists and dictionaries (insertion-ordered, one entry per key).  A float
  is carried along and never computed with; the source only ever tests whether it is zero.
\<close>

datatype pyfloat = Float bool nat int | Inf bool | NaN

datatype json =
    JNull
  | JBool bool
  | JInt int
  | JFloat pyfloat
  | JStr pystr
  | JArr "json list"
  | JObj "(pystr \<times> json) list"

type_synonym dict = "(pystr \<times> json) list"

text \<open>Python truthiness, as tested by \<open>not x\<close>.\<close>

fun float_is_zero :: "pyfloat \<Rightarrow> bool" where
  "float_is_zero (Float sg m e) = (m = 0)"
| "float_is_zero (Inf sg) = False"
| "float_is_zero NaN = False"

fun truthy :: "json \<Rightarrow> bool" where
  "truthy JNull = False"
| "truthy (JBool b) = b"
| "truthy (JInt i) = (i \<noteq> 0)"
| "truthy (JFloat f) = (\<not> float_is_zero f)"
| "truthy (JStr s) = (s \<noteq> [])"
| "truthy (JArr xs) = (xs \<noteq> [])"
| "truthy (JObj kvs) = (kvs \<noteq> [])"

text \<open>
  \<open>x.get(key, default)\<close> on a decoded value: only a dictionary has \<open>get\<close>, anything
  else raises \<open>AttributeError\<close>.
\<close>

text \<open>\<open>type(x).__name__\<close>; \<open>quoted s\<close> puts \<open>s\<close> between single quotes.\<close>

fun type_name :: "json \<Rightarrow> pystr" where
  "type_name JNull = py ''NoneType''"
| "type_name (JBool b) = py ''bool''"
| "type_name (JInt i) = py ''int''"
| "type_name (JFloat f) = py ''float''"
| "type_name (JStr s) = py ''str''"
| "type_name (JArr xs) = py ''list''"
| "type_name (JObj kvs) = py ''dict''"

definition quoted :: "pystr \<Rightarrow> pystr" where
  "quoted s = [39] @ s @ [39]"

definition attribute_error :: "json \<Rightarrow> exn" where
  "attribute_error v =
     Error (quoted (type_name v) @ py '' object has no attribute '' @ quoted (py ''get''))"

fun json_get :: "json \<Rightarrow> pystr \<Rightarrow> json \<Rightarrow> exn + json" where
  "json_get (JObj kvs) k d = Inr (case map_of kvs k of None \<Rightarrow> d | Some v \<Rightarrow> v)"
| "json_get v k d = Inl (attribute_error v)"

text \<open>\<open>d.update(e)\<close>: a key of \<open>e\<close> replaces the value in place or is appended.\<close>

definition dict_update :: "dict \<Rightarrow> dict \<Rightarrow> dict" where
  "dict_update d e = fold (\<lambda>(k, v). AList.update k v) e d"

text \<open>\<open>bytes.fromhex(x)\<close> on a decoded value: a \<open>TypeError\<close> unless \<open>x\<close> is a string.\<close>

definition type_error :: "json \<Rightarrow> exn" where
  "type_error v = Error (py ''fromhex() argument must be str, not '' @ type_name v)"

fun bytes_fromhex :: "json \<Rightarrow> exn + bytes" where
  "bytes_fromhex (JStr s) = fromhex s"
| "bytes_fromhex v = Inl (type_error v)"

section \<open>The models of pdf_models.py\<close>

datatype ProcessingStatus = PENDING | PROCESSING | COMPLETED | FAILED

fun ProcessingStatus_value :: "ProcessingStatus \<Rightarrow> pystr" where
  "ProcessingStatus_value PENDING = py ''pending''"
| "ProcessingStatus_value PROCESSING = py ''processing''"
| "ProcessingStatus_value COMPLETED = py ''completed''"
| "ProcessingStatus_value FAILED = py ''failed''"

datatype ParserType = PYPDF | GEMINI_FLASH | MISTRAL

fun ParserType_value :: "ParserType \<Rightarrow> pystr" where
  "ParserType_value PYPDF = py ''pypdf''"
| "ParserType_value GEMINI_FLASH = py ''gemini_flash''"
| "ParserType_value MISTRAL = py ''mistral''"

text \<open>
  \<open>ParserType(x)\<close>: the member whose value is \<open>x\<close>; \<open>None\<close> stands for the
  \<open>ValueError\<close> raised for anything else.
\<close>

fun ParserType_of :: "json \<Rightarrow> ParserType option" where
  "ParserType_of (JStr s) =
     (if s = py ''pypdf'' then Some PYPDF
      else if s = py ''gemini_flash'' then Some GEMINI_FLASH
      else if s = py ''mistral'' then Some MISTRAL
      else None)"
| "ParserType_of v = None"

record PDFProcessingResponse =
  resp_processing_id :: pystr
  resp_status :: ProcessingStatus
  resp_message :: pystr
  resp_parser :: "ParserType option"
  resp_result :: "json option"

record PDFTextExtraction =
  ext_text :: pystr
  ext_markdown :: pystr
  ext_page_count :: int
  ext_metadata :: json
  ext_parser_used :: ParserType

record GeminiAnalysis =
  ana_summary :: pystr
  ana_key_points :: "pystr list"
  ana_sentiment :: "pystr option"
  ana_topics :: "pystr list"
  ana_confidence_score :: "pyfloat option"

record ProcessingResult =
  extraction :: PDFTextExtraction
  analysis :: GeminiAnalysis
  processing_time :: pyfloat
  filename :: pystr
  parser_used :: ParserType

section \<open>Collaborators\<close>

text \<open>
  The JSON codec and the processing strategy (\<open>PDFProcessor.process_pdf\<close>, which runs
  the PDF extraction and the Gemini call) are parameters of the model: the pipeline only
  depends on whether they return or raise.  So is \<open>enum_format\<close>, what an f-string writes
  for a member of \<open>ParserType\<close>: its value (\<open>pypdf\<close>) before Python 3.11, its name
  (\<open>ParserType.PYPDF\<close>) from then on.
\<close>

record env =
  json_dumps :: "json \<Rightarrow> pystr"
  json_loads :: "pystr \<Rightarrow> exn + json"
  process_pdf :: "bytes \<Rightarrow> json \<Rightarrow> ParserType \<Rightarrow> exn + ProcessingResult"
  enum_format :: "ParserType \<Rightarrow> pystr"

section \<open>State of the service\<close>

text \<open>
  Every call that leaves the process (a Redis command, the HTTP post of a status, the
  strategy) and every write to the status register is recorded, in order, in \<open>trace\<close>.
\<close>

type_synonym fields = "(pystr \<times> pystr) list"

datatype event =
    XADD fields
  | XREADGROUP pystr nat
  | DELIVER pystr nat
  | XACK nat
  | SETEX pystr nat pystr
  | GET pystr
  | POST_update_status pystr dict
  | PROCESS_PDF bytes json ParserType
  | REGISTER_SET pystr dict
  | REGISTER_UPDATE pystr dict
  | PING
  | XGROUP_CREATE

text \<open>
  \<open>redis_client\<close>: \<open>RedisService.redis_client\<close> is not \<open>None\<close>.
  \<open>stream\<close>: the entries of \<open>pdf_processing_stream\<close> in append order; the id of an
  entry is its position.  \<open>last_delivered\<close> and \<open>pel\<close>: the cursor and the pending
  entries list (entry id, consumer) of the group \<open>pdf_consumers\<close>.
  \<open>store\<close>: the keys of the result store with value and TTL in seconds.
  \<open>processing_status\<close>: the module-level dictionary of main.py.
  \<open>faults\<close>: for the coming outside calls, in order, whether the call fails; when the
  list is used up every call succeeds.
\<close>

record world =
  redis_client :: bool
  stream :: "fields list"
  last_delivered :: nat
  pel :: "(nat \<times> pystr) list"
  store :: "pystr \<rightharpoonup> pystr \<times> nat"
  processing_status :: "pystr \<rightharpoonup> dict"
  faults :: "bool list"
  trace :: "event list"

definition log :: "event \<Rightarrow> world \<Rightarrow> world" where
  "log ev w = w\<lparr>trace := trace w @ [ev]\<rparr>"

text \<open>An outside call: it is recorded and takes the next entry of \<open>faults\<close>.\<close>

definition next_ok :: "world \<Rightarrow> bool" where
  "next_ok w = (case faults w of [] \<Rightarrow> True | f # fs \<Rightarrow> \<not> f)"

definition call :: "event \<Rightarrow> world \<Rightarrow> bool \<times> world" where
  "call ev w = (next_ok w, log ev (w\<lparr>faults := tl (faults w)\<rparr>))"

section \<open>The broker\<close>

text \<open>
  The Redis server behind \<open>redis.asyncio\<close> is not part of the sources; its commands are
  modelled from sections 3, 4.1 and 4.2 of the specification.  A failed command changes
  nothing.
\<close>

definition broker_error :: exn where
  "broker_error = Error (py ''redis error'')"

text \<open>Modelled from the spec: \<open>XADD\<close>, the append of the Durable Stream: the entry goes to the
  end of the stream and its id is returned.\<close>

definition xadd :: "fields \<Rightarrow> world \<Rightarrow> (exn + nat) \<times> world" where
  "xadd f w =
     (case call (XADD f) w of
        (False, w1) \<Rightarrow> (Inl broker_error, w1)
      | (True, w1) \<Rightarrow> (Inr (length (stream w1)), w1\<lparr>stream := stream w1 @ [f]\<rparr>))"

text \<open>
  Modelled from the spec: the ids of the next \<open>count\<close> entries that were never delivered
  to any consumer of the group.
\<close>

definition new_ids :: "world \<Rightarrow> nat \<Rightarrow> nat list" where
  "new_ids w count =
     [last_delivered w ..< min (length (stream w)) (last_delivered w + count)]"

text \<open>Modelled from the spec: \<open>XREADGROUP\<close> with id \<open>>\<close>, the \<open>read_group\<close> of the Durable
  Stream: it returns only entries not yet delivered to any consumer of the group, moves
  the delivery cursor past them and puts them on the pending entries list.\<close>

definition xreadgroup :: "pystr \<Rightarrow> nat \<Rightarrow> world \<Rightarrow> (exn + (nat \<times> fields) list) \<times> world" where
  "xreadgroup consumer count w =
     (case call (XREADGROUP consumer count) w of
        (False, w1) \<Rightarrow> (Inl broker_error, w1)
      | (True, w1) \<Rightarrow>
          (let ids = new_ids w1 count
           in (Inr (map (\<lambda>i. (i, stream w1 ! i)) ids),
               w1\<lparr>last_delivered := last_delivered w1 + length ids,
                  pel := pel w1 @ map (\<lambda>i. (i, consumer)) ids,
                  trace := trace w1 @ map (DELIVER consumer) ids\<rparr>)))"

text \<open>Modelled from the spec: \<open>XACK\<close>, the \<open>ack\<close> of the Durable Stream: the entry leaves the
  pending entries list for good.\<close>

definition xack :: "nat \<Rightarrow> world \<Rightarrow> (exn + nat) \<times> world" where
  "xack message_id w =
     (case call (XACK message_id) w of
        (False, w1) \<Rightarrow> (Inl broker_error, w1)
      | (True, w1) \<Rightarrow>
          (Inr (length (filter (\<lambda>p. fst p = message_id) (pel w1))),
           w1\<lparr>pel := filter (\<lambda>p. fst p \<noteq> message_id) (pel w1)\<rparr>))"

text \<open>Modelled from the spec: \<open>SETEX\<close>, the \<open>put\<close> of the Result Store with its TTL.\<close>

definition setex :: "pystr \<Rightarrow> nat \<Rightarrow> pystr \<Rightarrow> world \<Rightarrow> (exn + unit) \<times> world" where
  "setex key seconds v w =
     (case call (SETEX key seconds v) w of
        (False, w1) \<Rightarrow> (Inl broker_error, w1)
      | (True, w1) \<Rightarrow> (Inr (), w1\<lparr>store := (store w1)(key \<mapsto> (v, seconds))\<rparr>))"

text \<open>Modelled from the spec: \<open>GET\<close>, the \<open>get\<close> of the Result Store; an absent key (never
  written, or expired) gives \<open>None\<close>.\<close>

definition get :: "pystr \<Rightarrow> world \<Rightarrow> (exn + pystr option) \<times> world" where
  "get key w =
     (case call (GET key) w of
        (False, w1) \<Rightarrow> (Inl broker_error, w1)
      | (True, w1) \<Rightarrow> (Inr (map_option fst (store w1 key)), w1))"

section \<open>redis_service.py\<close>

definition consumer_name :: pystr where
  "consumer_name = py ''pdf_consumer_1''"

definition not_initialized :: exn where
  "not_initialized = Error (py ''Redis client not initialized'')"

text \<open>
  The service as constructed at import time (\<open>redis_client = None\<close>, an empty status
  register) in front of an empty broker.
\<close>

definition start :: "bool list \<Rightarrow> world" where
  "start fs =
     \<lparr>redis_client = False, stream = [], last_delivered = 0, pel = [], store = Map.empty,
      processing_status = Map.empty, faults = fs, trace = []\<rparr>"

text \<open>
  \<open>RedisService.initialize\<close>: the client object is assigned first, then \<open>ping\<close> and
  \<open>xgroup_create\<close> run and their exceptions are raised again (a \<open>BUSYGROUP\<close> answer
  counts as success).
\<close>

definition initialize :: "world \<Rightarrow> (exn + unit) \<times> world" where
  "initialize w =
     (case call PING (w\<lparr>redis_client := True\<rparr>) of
        (False, w1) \<Rightarrow> (Inl broker_error, w1)
      | (True, w1) \<Rightarrow>
          (case call XGROUP_CREATE w1 of
             (False, w2) \<Rightarrow> (Inl broker_error, w2)
           | (True, w2) \<Rightarrow> (Inr (), w2)))"

text \<open>\<open>RedisService.add_to_stream\<close>: a failure of \<open>xadd\<close> is logged and raised again.\<close>

definition add_to_stream :: "env \<Rightarrow> pystr \<Rightarrow> dict \<Rightarrow> world \<Rightarrow> (exn + nat) \<times> world" where
  "add_to_stream env processing_id data w =
     (if \<not> redis_client w then (Inl not_initialized, w)
      else xadd [(py ''processing_id'', processing_id),
                 (py ''data'', json_dumps env (JObj data))] w)"

text \<open>\<open>RedisService.read_messages\<close>: a failure of \<open>xreadgroup\<close> gives the empty list.\<close>

definition read_messages :: "nat \<Rightarrow> world \<Rightarrow> (exn + (nat \<times> fields) list) \<times> world" where
  "read_messages count w =
     (if \<not> redis_client w then (Inl not_initialized, w)
      else case xreadgroup consumer_name count w of
             (Inl e, w1) \<Rightarrow> (Inr [], w1)
           | (Inr messages, w1) \<Rightarrow> (Inr messages, w1))"

text \<open>\<open>RedisService.acknowledge_message\<close>: a failure of \<open>xack\<close> is logged, not raised.\<close>

definition acknowledge_message :: "nat \<Rightarrow> world \<Rightarrow> (exn + unit) \<times> world" where
  "acknowledge_message message_id w =
     (if \<not> redis_client w then (Inl not_initialized, w)
      else (Inr (), snd (xack message_id w)))"

text \<open>\<open>RedisService.store_result\<close>: a failure of \<open>setex\<close> is logged and raised again.\<close>

definition store_result :: "env \<Rightarrow> pystr \<Rightarrow> dict \<Rightarrow> nat \<Rightarrow> world \<Rightarrow> (exn + unit) \<times> world" where
  "store_result env processing_id data expire_seconds w =
     (if \<not> redis_client w then (Inl not_initialized, w)
      else setex (py ''result:'' @ processing_id) expire_seconds (json_dumps env (JObj data)) w)"

text \<open>
  \<open>RedisService.get_result\<close>: \<open>json.loads(data) if data else None\<close>; every exception
  raised inside the \<open>try\<close> (by \<open>get\<close> or by \<open>json.loads\<close>) gives \<open>None\<close>.
\<close>

definition get_result :: "env \<Rightarrow> pystr \<Rightarrow> world \<Rightarrow> (exn + json option) \<times> world" where
  "get_result env processing_id w =
     (if \<not> redis_client w then (Inl not_initialized, w)
      else case get (py ''result:'' @ processing_id) w of
             (Inl e, w1) \<Rightarrow> (Inr None, w1)
           | (Inr None, w1) \<Rightarrow> (Inr None, w1)
           | (Inr (Some data), w1) \<Rightarrow>
               (if data = [] then (Inr None, w1)
                else case json_loads env data of
                       Inl e \<Rightarrow> (Inr None, w1)
                     | Inr v \<Rightarrow> (Inr (Some v), w1)))"

section \<open>main.py\<close>

text \<open>\<open>s.endswith(suffix)\<close>.\<close>

definition endswith :: "pystr \<Rightarrow> pystr \<Rightarrow> bool" where
  "endswith s suf \<longleftrightarrow> length suf \<le> length s \<and> drop (length s - length suf) s = suf"

text \<open>The message of \<open>upload_pdf\<close>, an f-string around the parser.\<close>

definition upload_message :: "env \<Rightarrow> ParserType \<Rightarrow> pystr" where
  "upload_message env parser =
     py ''PDF uploaded and queued for processing with '' @ enum_format env parser @ py '' parser''"

definition pending_entry :: "env \<Rightarrow> pystr \<Rightarrow> ParserType \<Rightarrow> dict" where
  "pending_entry env file_name parser =
     [(py ''status'', JStr (ProcessingStatus_value PENDING)),
      (py ''filename'', JStr file_name),
      (py ''parser'', JStr (ParserType_value parser)),
      (py ''message'', JStr (upload_message env parser))]"

definition upload_payload :: "pystr \<Rightarrow> pystr \<Rightarrow> bytes \<Rightarrow> ParserType \<Rightarrow> dict" where
  "upload_payload processing_id file_name content parser =
     [(py ''filename'', JStr file_name),
      (py ''content'', JStr (hex content)),
      (py ''processing_id'', JStr processing_id),
      (py ''parser'', JStr (ParserType_value parser))]"

text \<open>
  \<open>upload_pdf\<close>.  \<open>uuid4\<close> is the identifier \<open>uuid.uuid4()\<close> returns, \<open>file_name\<close> and
  \<open>content\<close> are \<open>file.filename\<close> and what \<open>file.read()\<close> returns.  The exception of
  \<open>add_to_stream\<close> is not caught.
\<close>

definition upload_pdf ::
  "env \<Rightarrow> pystr \<Rightarrow> pystr \<Rightarrow> bytes \<Rightarrow> ParserType \<Rightarrow> world \<Rightarrow> (exn + PDFProcessingResponse) \<times> world"
where
  "upload_pdf env uuid4 file_name content parser w =
     (if \<not> endswith file_name (py ''.pdf'')
      then (Inl (HTTPException 400 (py ''Only PDF files are allowed'')), w)
      else
        (let processing_id = uuid4;
             entry = pending_entry env file_name parser;
             w1 = log (REGISTER_SET processing_id entry)
                    (w\<lparr>processing_status := (processing_status w)(processing_id \<mapsto> entry)\<rparr>)
         in case add_to_stream env processing_id
                   (upload_payload processing_id file_name content parser) w1 of
              (Inl e, w2) \<Rightarrow> (Inl e, w2)
            | (Inr message_id, w2) \<Rightarrow>
                (Inr \<lparr>resp_processing_id = processing_id,
                      resp_status = PENDING,
                      resp_message = upload_message env parser,
                      resp_parser = Some parser,
                      resp_result = None\<rparr>, w2)))"

text \<open>
  The declared parameter \<open>parser: ParserType = Form(ParserType.PYPDF)\<close> of the route: a
  request without the form field, or with an empty one, gets the default; any other
  field value is converted to the member with that value; \<open>None\<close> stands for the 422
  answer with which the request validation refuses a value that is no member's, before
  \<open>upload_pdf\<close> runs.
\<close>

definition parser_form :: "pystr option \<Rightarrow> ParserType option" where
  "parser_form field =
     (case field of
        None \<Rightarrow> Some PYPDF
      | Some s \<Rightarrow> if s = [] then Some PYPDF else ParserType_of (JStr s))"

text \<open>
  \<open>POST /upload-pdf\<close>: \<open>None\<close> is the 422 answer of the request validation, otherwise
  \<open>upload_pdf\<close> runs with the converted parser.
\<close>

definition post_upload_pdf ::
  "env \<Rightarrow> pystr \<Rightarrow> pystr \<Rightarrow> bytes \<Rightarrow> pystr option \<Rightarrow> world \<Rightarrow>
     (exn + PDFProcessingResponse) option \<times> world"
where
  "post_upload_pdf env uuid4 file_name content field w =
     (case parser_form field of
        None \<Rightarrow> (None, w)
      | Some parser \<Rightarrow>
          (case upload_pdf env uuid4 file_name content parser w of
             (r, w1) \<Rightarrow> (Some r, w1)))"

text \<open>\<open>update_processing_status\<close>: the posted fields are merged into a known entry.\<close>

definition update_processing_status :: "pystr \<Rightarrow> dict \<Rightarrow> world \<Rightarrow> (exn + unit) \<times> world" where
  "update_processing_status processing_id status_data w =
     (case processing_status w processing_id of
        Some entry \<Rightarrow>
          (Inr (), log (REGISTER_UPDATE processing_id status_data)
                    (w\<lparr>processing_status :=
                         (processing_status w)(processing_id \<mapsto> dict_update entry status_data)\<rparr>))
      | None \<Rightarrow> (Inl (HTTPException 404 (py ''Processing ID not found'')), w))"

text \<open>
  \<open>get_processing_results\<close>: the 404 raised inside the \<open>try\<close> passes through, every other
  exception becomes a 500.
\<close>

definition results_body :: "pystr \<Rightarrow> json \<Rightarrow> exn + dict" where
  "results_body processing_id results =
     (case json_get results (py ''markdown'') (JStr []) of Inl e \<Rightarrow> Inl e | Inr markdown \<Rightarrow>
      case json_get results (py ''summary'') (JStr []) of Inl e \<Rightarrow> Inl e | Inr summary \<Rightarrow>
      case json_get results (py ''parser_used'') (JStr (py ''unknown'')) of Inl e \<Rightarrow> Inl e | Inr used \<Rightarrow>
      case json_get results (py ''filename'') (JStr []) of Inl e \<Rightarrow> Inl e | Inr file_name \<Rightarrow>
      case json_get results (py ''processing_time'') (JInt 0) of Inl e \<Rightarrow> Inl e | Inr time \<Rightarrow>
        Inr [(py ''processing_id'', JStr processing_id),
             (py ''markdown'', markdown),
             (py ''summary'', summary),
             (py ''parser_used'', used),
             (py ''filename'', file_name),
             (py ''processing_time'', time)])"

definition retrieval_failed :: "exn \<Rightarrow> exn" where
  "retrieval_failed e = HTTPException 500 (py ''Failed to retrieve results: '' @ exn_str e)"

definition results_not_found :: exn where
  "results_not_found = HTTPException 404 (py ''Results not found or expired'')"

definition get_processing_results :: "env \<Rightarrow> pystr \<Rightarrow> world \<Rightarrow> (exn + dict) \<times> world" where
  "get_processing_results env processing_id w =
     (case get_result env processing_id w of
        (Inl e, w1) \<Rightarrow> (Inl (retrieval_failed e), w1)
      | (Inr None, w1) \<Rightarrow> (Inl results_not_found, w1)
      | (Inr (Some results), w1) \<Rightarrow>
          (if \<not> truthy results then (Inl results_not_found, w1)
           else case results_body processing_id results of
                  Inl e \<Rightarrow> (Inl (retrieval_failed e), w1)
                | Inr body \<Rightarrow> (Inr body, w1)))"

section \<open>pdf_consumer.py\<close>

text \<open>
  \<open>PDFConsumer._update_status\<close>: the post to \<open>/update-status/{processing_id}\<close> goes to
  \<open>API_BASE_URL\<close>, by default the service itself, where \<open>update_processing_status\<close>
  serves it; a failed request and an answer other than 200 are logged and nothing is
  raised.  The id is written into the URL as it is: the route receives it unchanged when
  it is made of characters that need no escaping, as the \<open>uuid4\<close> ids of \<open>upload_pdf\<close>
  are.
\<close>

definition update_status :: "pystr \<Rightarrow> dict \<Rightarrow> world \<Rightarrow> world" where
  "update_status processing_id status_data w =
     (case call (POST_update_status processing_id status_data) w of
        (False, w1) \<Rightarrow> w1
      | (True, w1) \<Rightarrow> snd (update_processing_status processing_id status_data w1))"

text \<open>\<open>PDFConsumer._store_results_in_redis\<close>: the exception of \<open>store_result\<close> is logged.\<close>

definition store_results_in_redis :: "env \<Rightarrow> pystr \<Rightarrow> dict \<Rightarrow> world \<Rightarrow> world" where
  "store_results_in_redis env processing_id data w =
     snd (store_result env processing_id data 86400 w)"

text \<open>The dictionaries built in \<open>_process_message\<close>.\<close>

definition processing_update :: dict where
  "processing_update =
     [(py ''status'', JStr (ProcessingStatus_value PROCESSING)),
      (py ''message'', JStr (py ''Processing PDF...''))]"

definition failed_update :: "exn \<Rightarrow> dict" where
  "failed_update e =
     [(py ''status'', JStr (ProcessingStatus_value FAILED)),
      (py ''message'', JStr (py ''Processing failed: '' @ exn_str e))]"

definition opt_json :: "('a \<Rightarrow> json) \<Rightarrow> 'a option \<Rightarrow> json" where
  "opt_json f x = (case x of None \<Rightarrow> JNull | Some v \<Rightarrow> f v)"

definition result_record :: "ProcessingResult \<Rightarrow> pystr \<Rightarrow> pystr \<Rightarrow> dict" where
  "result_record result clean_markdown clean_summary =
     [(py ''markdown'', JStr clean_markdown),
      (py ''summary'', JStr clean_summary),
      (py ''parser_used'', JStr (ParserType_value (parser_used result))),
      (py ''filename'', JStr (filename result)),
      (py ''processing_time'', JFloat (processing_time result))]"

definition completed_update ::
  "ProcessingResult \<Rightarrow> pystr \<Rightarrow> pystr \<Rightarrow> pystr \<Rightarrow> pystr list \<Rightarrow> pystr list \<Rightarrow> dict"
where
  "completed_update result clean_text clean_markdown clean_summary clean_key_points clean_topics =
     [(py ''status'', JStr (ProcessingStatus_value COMPLETED)),
      (py ''message'', JStr (py ''PDF processing completed successfully'')),
      (py ''parser'', JStr (ParserType_value (parser_used result))),
      (py ''result'', JObj
        [(py ''extraction'', JObj
           [(py ''text'', JStr clean_text),
            (py ''markdown'', JStr clean_markdown),
            (py ''page_count'', JInt (ext_page_count (extraction result))),
            (py ''metadata'', ext_metadata (extraction result)),
            (py ''parser_used'', JStr (ParserType_value (ext_parser_used (extraction result))))]),
         (py ''analysis'', JObj
           [(py ''summary'', JStr clean_summary),
            (py ''key_points'', JArr (map JStr clean_key_points)),
            (py ''sentiment'', opt_json JStr (ana_sentiment (analysis result))),
            (py ''topics'', JArr (map JStr clean_topics)),
            (py ''confidence_score'', opt_json JFloat (ana_confidence_score (analysis result)))]),
         (py ''processing_time'', JFloat (processing_time result)),
         (py ''filename'', JStr (filename result)),
         (py ''parser_used'', JStr (ParserType_value (parser_used result)))])]"

text \<open>
  Lines 78 to 120 of \<open>_process_message\<close>: what follows a strategy call that returned.
\<close>

definition finish_message ::
  "env \<Rightarrow> nat \<Rightarrow> pystr \<Rightarrow> ProcessingResult \<Rightarrow> world \<Rightarrow> (exn + unit) \<times> world"
where
  "finish_message env message_id processing_id result w =
     (case clean (ext_text (extraction result)) of Inl e \<Rightarrow> (Inl e, w) | Inr clean_text \<Rightarrow>
      case clean (ext_markdown (extraction result)) of Inl e \<Rightarrow> (Inl e, w) | Inr clean_markdown \<Rightarrow>
      case clean (ana_summary (analysis result)) of Inl e \<Rightarrow> (Inl e, w) | Inr clean_summary \<Rightarrow>
      case clean_all (ana_key_points (analysis result)) of Inl e \<Rightarrow> (Inl e, w) | Inr clean_key_points \<Rightarrow>
      case clean_all (ana_topics (analysis result)) of Inl e \<Rightarrow> (Inl e, w) | Inr clean_topics \<Rightarrow>
        (let w1 = store_results_in_redis env processing_id
                    (result_record result clean_markdown clean_summary) w;
             w2 = update_status processing_id
                    (completed_update result clean_text clean_markdown clean_summary
                       clean_key_points clean_topics) w1
         in acknowledge_message message_id w2))"

text \<open>
  Lines 46 to 67 of \<open>_process_message\<close>, which touch nothing outside: the entry is to be
  dropped (the two early returns), an exception is raised, or the job is decoded.
  \<open>none_or_empty x\<close> is \<open>not x\<close> for what \<open>fields.get\<close> returns.
\<close>

datatype decoded = Drop | Raise exn | Job pystr json bytes ParserType

definition none_or_empty :: "pystr option \<Rightarrow> bool" where
  "none_or_empty x = (case x of None \<Rightarrow> True | Some s \<Rightarrow> s = [])"

definition decode_message :: "env \<Rightarrow> fields \<Rightarrow> decoded" where
  "decode_message env flds =
     (let processing_id = map_of flds (py ''processing_id'');
          data_json = map_of flds (py ''data'')
      in if none_or_empty processing_id \<or> none_or_empty data_json then Drop
         else
         case (processing_id, data_json) of
           (Some pid, Some dj) \<Rightarrow>
             (case json_loads env dj of Inl e \<Rightarrow> Raise e | Inr data \<Rightarrow>
              case json_get data (py ''filename'') JNull of Inl e \<Rightarrow> Raise e | Inr file_name \<Rightarrow>
              case json_get data (py ''content'') JNull of Inl e \<Rightarrow> Raise e | Inr content_hex \<Rightarrow>
              case json_get data (py ''parser'') (JStr (py ''pypdf'')) of Inl e \<Rightarrow> Raise e
              | Inr parser_str \<Rightarrow>
                (let parser = (case ParserType_of parser_str of None \<Rightarrow> PYPDF | Some p \<Rightarrow> p)
                 in if \<not> truthy file_name \<or> \<not> truthy content_hex then Drop
                    else case bytes_fromhex content_hex of
                           Inl e \<Rightarrow> Raise e
                         | Inr pdf_content \<Rightarrow> Job pid file_name pdf_content parser))
         | _ \<Rightarrow> Drop)"

text \<open>
  The \<open>try\<close> block of \<open>_process_message\<close> (lines 46 to 120); \<open>Inl\<close> is the exception that
  leaves it.
\<close>

definition process_try :: "env \<Rightarrow> nat \<Rightarrow> fields \<Rightarrow> world \<Rightarrow> (exn + unit) \<times> world" where
  "process_try env message_id flds w =
     (case decode_message env flds of
        Drop \<Rightarrow> acknowledge_message message_id w
      | Raise e \<Rightarrow> (Inl e, w)
      | Job processing_id file_name pdf_content parser \<Rightarrow>
          (let w1 = update_status processing_id processing_update w;
               w2 = log (PROCESS_PDF pdf_content file_name parser) w1
           in case process_pdf env pdf_content file_name parser of
                Inl e \<Rightarrow> (Inl e, w2)
              | Inr result \<Rightarrow> finish_message env message_id processing_id result w2))"

text \<open>
  \<open>PDFConsumer._process_message\<close>: the \<open>try\<close> block and its handler (lines 122 to 131).
  \<open>processing_id\<close> is bound by the first statement of the block, which cannot raise.
\<close>

definition process_message :: "env \<Rightarrow> nat \<Rightarrow> fields \<Rightarrow> world \<Rightarrow> (exn + unit) \<times> world" where
  "process_message env message_id flds w =
     (case process_try env message_id flds w of
        (Inr u, w1) \<Rightarrow> (Inr u, w1)
      | (Inl e, w1) \<Rightarrow>
          (let w2 = (case map_of flds (py ''processing_id'') of
                       None \<Rightarrow> w1
                     | Some processing_id \<Rightarrow>
                         if processing_id = [] then w1
                         else update_status processing_id (failed_update e) w1)
           in acknowledge_message message_id w2))"

text \<open>
  One pass through the body of the loop of \<open>consume_messages\<close>; an exception that
  reaches the loop is logged there.
\<close>

fun process_messages :: "env \<Rightarrow> (nat \<times> fields) list \<Rightarrow> world \<Rightarrow> (exn + unit) \<times> world" where
  "process_messages env [] w = (Inr (), w)"
| "process_messages env ((message_id, flds) # ms) w =
     (case process_message env message_id flds w of
        (Inl e, w1) \<Rightarrow> (Inl e, w1)
      | (Inr u, w1) \<Rightarrow> process_messages env ms w1)"

definition consume_iteration :: "env \<Rightarrow> world \<Rightarrow> world" where
  "consume_iteration env w =
     (case read_messages 1 w of
        (Inl e, w1) \<Rightarrow> w1
      | (Inr messages, w1) \<Rightarrow>
          if messages = [] then w1 else snd (process_messages env messages w1))"

text \<open>
  The fields of a \<open>ProcessingResult\<close> that the worker cleans are declared \<open>str\<close> and
  \<open>List[str]\<close> in pdf_models.py.
\<close>

definition typed_result :: "ProcessingResult \<Rightarrow> bool" where
  "typed_result result \<longleftrightarrow>
     is_str (ext_text (extraction result)) \<and>
     is_str (ext_markdown (extraction result)) \<and>
     is_str (ana_summary (analysis result)) \<and>
     list_all is_str (ana_key_points (analysis result)) \<and>
     list_all is_str (ana_topics (analysis result))"

text \<open>The two dictionaries the worker writes for a result, with the cleaned texts.\<close>

definition stored_record :: "ProcessingResult \<Rightarrow> dict" where
  "stored_record result =
     result_record result
       (replace_surrogates (ext_markdown (extraction result)))
       (replace_surrogates (ana_summary (analysis result)))"

definition completed_status :: "ProcessingResult \<Rightarrow> dict" where
  "completed_status result =
     completed_update result
       (replace_surrogates (ext_text (extraction result)))
       (replace_surrogates (ext_markdown (extraction result)))
       (replace_surrogates (ana_summary (analysis result)))
       (map replace_surrogates (ana_key_points (analysis result)))
       (map replace_surrogates (ana_topics (analysis result)))"

section \<open>Runs of the service\<close>

text \<open>
  What can happen to the service: the HTTP requests, a pass of the worker loop
  (\<open>consume_messages\<close> repeats it for as long as the consumer runs), and a read of the
  stream by some consumer of the group.  A run takes them one at a time, each to its end.
\<close>

datatype request =
    Upload pystr pystr bytes "pystr option"
  | UpdateStatus pystr dict
  | GetResults pystr
  | Consume
  | Read pystr nat

fun step :: "env \<Rightarrow> request \<Rightarrow> world \<Rightarrow> world" where
  "step env (Upload uuid4 file_name content field) w =
     snd (post_upload_pdf env uuid4 file_name content field w)"
| "step env (UpdateStatus processing_id status_data) w =
     snd (update_processing_status processing_id status_data w)"
| "step env (GetResults processing_id) w = snd (get_processing_results env processing_id w)"
| "step env Consume w = consume_iteration env w"
| "step env (Read consumer count) w = snd (xreadgroup consumer count w)"

definition run :: "env \<Rightarrow> request list \<Rightarrow> world \<Rightarrow> world" where
  "run env rs w = fold (step env) rs w"

fun other_member :: "request \<Rightarrow> bool" where
  "other_member (Read consumer count) = (consumer \<noteq> consumer_name)"
| "other_member r = True"

section \<open>Reading a trace\<close>

fun acks :: "event list \<Rightarrow> nat list" where
  "acks [] = []"
| "acks (XACK m # es) = m # acks es"
| "acks (e # es) = acks es"

fun deliveries :: "event list \<Rightarrow> (pystr \<times> nat) list" where
  "deliveries [] = []"
| "deliveries (DELIVER c m # es) = (c, m) # deliveries es"
| "deliveries (e # es) = deliveries es"

fun posts :: "event list \<Rightarrow> (pystr \<times> dict) list" where
  "posts [] = []"
| "posts (POST_update_status p d # es) = (p, d) # posts es"
| "posts (e # es) = posts es"

text \<open>The outside calls of a trace: the writes to the status register are left out.\<close>

fun is_call :: "event \<Rightarrow> bool" where
  "is_call (REGISTER_SET p d) = False"
| "is_call (REGISTER_UPDATE p d) = False"
| "is_call e = True"

definition calls :: "event list \<Rightarrow> event list" where
  "calls es = filter is_call es"

text \<open>The events added between two states.\<close>

definition since :: "world \<Rightarrow> world \<Rightarrow> event list" where
  "since w w' = drop (length (trace w)) (trace w')"

text \<open>
  A monitor for the consumer group: given the entries delivered and acknowledged so far,
  no entry is delivered a second time, and only a delivered entry that has not been
  acknowledged yet is acknowledged.
\<close>

fun group_ok :: "nat set \<Rightarrow> nat set \<Rightarrow> event list \<Rightarrow> bool" where
  "group_ok D A [] = True"
| "group_ok D A (DELIVER c m # es) = (m \<notin> D \<and> group_ok (insert m D) A es)"
| "group_ok D A (XACK m # es) = (m \<in> D \<and> m \<notin> A \<and> group_ok D (insert m A) es)"
| "group_ok D A (e # es) = group_ok D A es"

section \<open>Invariants of a run\<close>

text \<open>
  \<open>worked w w' ms\<close>: between \<open>w\<close> and \<open>w'\<close> the worker delivered nothing and issued
  exactly the acknowledgements \<open>ms\<close>; when no call fails these entries have left the
  pending entries list.
\<close>

definition worked :: "world \<Rightarrow> world \<Rightarrow> nat list \<Rightarrow> bool" where
  "worked w w' ms \<longleftrightarrow>
     (\<exists>es. trace w' = trace w @ es \<and> acks es = ms \<and> deliveries es = []) \<and>
     redis_client w' = redis_client w \<and>
     last_delivered w' = last_delivered w \<and>
     (faults w = [] \<longrightarrow>
        faults w' = [] \<and> pel w' = filter (\<lambda>p. fst p \<notin> set ms) (pel w))"

text \<open>
  \<open>stepped w w'\<close>: what one request does to the group.  The entries it delivers are those
  between the old and the new cursor, to one consumer; the worker acknowledges, after the
  delivery, exactly the entries delivered to it.
\<close>

definition stepped :: "world \<Rightarrow> world \<Rightarrow> bool" where
  "stepped w w' \<longleftrightarrow>
     (\<exists>es0 c es2.
        trace w' = trace w @ es0 @ map (DELIVER c) [last_delivered w ..< last_delivered w'] @ es2 \<and>
        deliveries es0 = [] \<and> acks es0 = [] \<and> deliveries es2 = [] \<and>
        acks es2 = (if c = consumer_name then [last_delivered w ..< last_delivered w'] else [])) \<and>
     last_delivered w \<le> last_delivered w' \<and>
     (faults w = [] \<and> (\<forall>p\<in>set (pel w). snd p \<noteq> consumer_name) \<longrightarrow>
        faults w' = [] \<and> (\<forall>p\<in>set (pel w'). snd p \<noteq> consumer_name))"

definition worker_deliveries :: "event list \<Rightarrow> nat list" where
  "worker_deliveries es = map snd (filter (\<lambda>d. fst d = consumer_name) (deliveries es))"

definition inv :: "world \<Rightarrow> bool" where
  "inv w \<longleftrightarrow>
     group_ok {} {} (trace w) \<and>
     snd ` set (deliveries (trace w)) \<subseteq> {..<last_delivered w} \<and>
     set (acks (trace w)) \<subseteq> {..<last_delivered w} \<and>
     acks (trace w) = worker_deliveries (trace w)"

section \<open>Sample data\<close>

text \<open>
  A strategy result whose text holds a lone surrogate, a codec that knows one payload
  (with a parser name outside the enumeration), and a service that is up.
\<close>

definition sample_result :: ProcessingResult where
  "sample_result =
     \<lparr>extraction =
        \<lparr>ext_text = [72, 55296, 105], ext_markdown = py ''Hi'', ext_page_count = 1,
         ext_metadata = JObj [], ext_parser_used = PYPDF\<rparr>,
      analysis =
        \<lparr>ana_summary = py ''Analysis completed'', ana_key_points = [py ''Text processed''],
         ana_sentiment = Some (py ''neutral''), ana_topics = [py ''document''],
         ana_confidence_score = None\<rparr>,
      processing_time = Float False 3 (-1),
      filename = py ''a.pdf'',
      parser_used = PYPDF\<rparr>"

definition sample_payload :: json where
  "sample_payload =
     JObj [(py ''filename'', JStr (py ''a.pdf'')),
           (py ''content'', JStr (py ''2550'')),
           (py ''processing_id'', JStr (py ''job-1'')),
           (py ''parser'', JStr (py ''tesseract''))]"

definition sample_env :: env where
  "sample_env =
     \<lparr>json_dumps = (\<lambda>v. py ''{}''),
      json_loads = (\<lambda>s. if s = py ''{}'' then Inr sample_payload
                         else Inl (Error (py ''Expecting value''))),
      process_pdf = (\<lambda>content file_name parser.
                       if parser = PYPDF then Inr sample_result
                       else Inl (Error (py ''Gemini model not available''))),
      enum_format = ParserType_value\<rparr>"

definition sample_fields :: fields where
  "sample_fields = [(py ''processing_id'', py ''job-1''), (py ''data'', py ''{}'')]"

definition up :: "bool list \<Rightarrow> world" where
  "up fs = (start fs)\<lparr>redis_client := True\<rparr>"

text \<open>
  A service with the job \<open>job-1\<close> queued, one where it is completed, and a stream entry
  for it whose payload is not JSON.
\<close>

definition queued :: "bool list \<Rightarrow> world" where
  "queued fs =
     (up fs)\<lparr>processing_status := [py ''job-1'' \<mapsto> pending_entry sample_env (py ''a.pdf'') PYPDF]\<rparr>"

definition finished :: world where
  "finished =
     (up [])\<lparr>processing_status :=
               [py ''job-1'' \<mapsto> dict_update (pending_entry sample_env (py ''a.pdf'') PYPDF)
                                  (completed_status sample_result)]\<rparr>"

definition bad_fields :: fields where
  "bad_fields = [(py ''processing_id'', py ''job-1''), (py ''data'', py ''{not json'')]"

text \<open>The status recorded for a job in the register.\<close>

definition status_of :: "world \<Rightarrow> pystr \<Rightarrow> json option" where
  "status_of w processing_id =
     (case processing_status w processing_id of
        None \<Rightarrow> None
      | Some entry \<Rightarrow> map_of entry (py ''status''))"

text \<open>The \<open>result\<close> field recorded for a job in the register.\<close>

definition result_of :: "world \<Rightarrow> pystr \<Rightarrow> json option" where
  "result_of w processing_id =
     (case processing_status w processing_id of
        None \<Rightarrow> None
      | Some entry \<Rightarrow> map_of entry (py ''result''))"

text \<open>
  A run: an upload, a pass of the worker, a read by another member of the group.
\<close>

definition sample_run :: "request list" where
  "sample_run =
     [Upload (py ''job-1'') (py ''a.pdf'') [37, 80] None, Consume,
      Read (py ''pdf_consumer_2'') 1]"

text \<open>
  A codec that reads back the one value \<open>v\<close>, and a strategy result with a lone surrogate
  in the sentiment and in the file name.
\<close>

definition echo_env :: "json \<Rightarrow> env" where
  "echo_env v =
     \<lparr>json_dumps = (\<lambda>x. py ''{...}''),
      json_loads = (\<lambda>s. Inr v),
      process_pdf = (\<lambda>content file_name parser. Inr sample_result),
      enum_format = ParserType_value\<rparr>"

definition dirty_result :: ProcessingResult where
  "dirty_result =
     \<lparr>extraction =
        \<lparr>ext_text = [72, 55296, 105], ext_markdown = py ''Hi'', ext_page_count = 1,
         ext_metadata = JObj [(py ''title'', JStr [56320])], ext_parser_used = PYPDF\<rparr>,
      analysis =
        \<lparr>ana_summary = py ''Analysis completed'', ana_key_points = [py ''Text processed''],
         ana_sentiment = Some [55296], ana_topics = [py ''document''],
         ana_confidence_score = None\<rparr>,
      processing_time = Float False 3 (-1),
      filename = [97, 56320],
      parser_used = PYPDF\<rparr>"

definition dirty_env :: env where
  "dirty_env = sample_env\<lparr>process_pdf := (\<lambda>content file_name parser. Inr dirty_result)\<rparr>"

text \<open>A result key whose value is not JSON.\<close>

definition garbled :: world where
  "garbled = (up [])\<lparr>store := [py ''result:job-1'' \<mapsto> (py ''{not json'', 86400)]\<rparr>"

section \<open>Properties\<close>

lemma hexdigit_not_space: "n < 16 \<Longrightarrow> \<not> is_space (hexdigit n)"
  by (simp add: hexdigit_def is_space_def)

lemma digit_value_hexdigit: "n < 16 \<Longrightarrow> digit_value (hexdigit n) = Some n"
  by (simp add: hexdigit_def digit_value_def)

lemma byte_nibbles: "of_nat (unat b div 16 * 16 + unat b mod 16) = (b :: byte)"
  by simp

lemma unat_byte_div16: "unat (b :: byte) div 16 < 16"
proof -
  have "unat b < 256" using unsigned_less [of b] by simp
  then show ?thesis by simp
qed

lemma hexdigit_ascii: "n < 16 \<Longrightarrow> hexdigit n < 128"
  by (simp add: hexdigit_def)

lemma unat_byte_mod16: "unat (b :: byte) mod 16 < 16"
  by simp

lemma first_non_ascii_hex: "first_non_ascii i (hex bs) = None"
proof (induction bs arbitrary: i)
  case Nil
  show ?case by (simp add: hex_def)
next
  case (Cons b bs)
  have "hex (b # bs) = hexdigit (unat b div 16) # hexdigit (unat b mod 16) # hex bs"
    by (simp add: hex_def)
  then show ?case
    using hexdigit_ascii [OF unat_byte_div16 [of b]] hexdigit_ascii [OF unat_byte_mod16 [of b]]
      Cons.IH [of "Suc (Suc i)"]
    by simp
qed

lemma fromhex_at_hex: "fromhex_at i (hex bs) = Inr bs"
proof (induction bs arbitrary: i)
  case Nil
  show ?case by (simp add: hex_def)
next
  case (Cons b bs)
  have tl: "fromhex_at (i + 2) (hex bs) = Inr bs"
    using Cons.IH .
  have "fromhex_at i (hex (b # bs)) =
        fromhex_at i (hexdigit (unat b div 16) # hexdigit (unat b mod 16) # hex bs)"
    by (simp add: hex_def)
  also have "\<dots> = Inr (of_nat (unat b div 16 * 16 + unat b mod 16) # bs)"
    using tl by (simp add: hexdigit_not_space digit_value_hexdigit unat_byte_div16)
  finally show ?case by (simp only: byte_nibbles)
qed

lemma fromhex_hex: "fromhex (hex bs) = Inr bs"
  by (simp add: fromhex_def first_non_ascii_hex fromhex_at_hex)

lemma hex_empty: "hex bs = [] \<longleftrightarrow> bs = []"
  by (cases bs) (simp_all add: hex_def)

subsection \<open>UTF-8 cleaning\<close>

lemma unat_byte_of: "n < 256 \<Longrightarrow> unat (byte_of n) = n"
  by (simp add: byte_of_def unat_of_nat)

lemma div64_less: "(c::nat) < 2048 \<Longrightarrow> c div 64 < 32"
  by (simp add: less_mult_imp_div_less)

lemma div64_ge: "128 \<le> (c::nat) \<Longrightarrow> 2 \<le> c div 64"
  using div_le_mono [of 128 c 64] by simp

lemma div4096_less: "(c::nat) < 65536 \<Longrightarrow> c div 4096 < 16"
  by (simp add: less_mult_imp_div_less)

lemma div262144_less: "(c::nat) < 1114112 \<Longrightarrow> c div 262144 < 5"
  by (simp add: less_mult_imp_div_less)

lemma scale_digits: "(a::nat) * 64 + b = q \<Longrightarrow> a * (64 * k) + b * k = q * k"
  by (metis add_mult_distrib mult.assoc)

lemma three_digits: "(c::nat) div 4096 * 4096 + c div 64 mod 64 * 64 + c mod 64 = c"
proof -
  have d: "c div 4096 = c div 64 div 64"
    by (simp add: div_mult2_eq)
  have "c div 64 div 64 * (64 * 64) + c div 64 mod 64 * 64 = c div 64 * 64"
    by (rule scale_digits) (rule div_mult_mod_eq)
  with d have "c div 4096 * 4096 + c div 64 mod 64 * 64 = c div 64 * 64"
    by simp
  then show ?thesis by simp
qed

lemma four_digits:
  "(c::nat) div 262144 * 262144 + c div 4096 mod 64 * 4096 + c div 64 mod 64 * 64 + c mod 64 = c"
proof -
  have d: "c div 262144 = c div 4096 div 64"
    by (simp add: div_mult2_eq)
  have "c div 4096 div 64 * (64 * 4096) + c div 4096 mod 64 * 4096 = c div 4096 * 4096"
    by (rule scale_digits) (rule div_mult_mod_eq)
  with d have "c div 262144 * 262144 + c div 4096 mod 64 * 4096 = c div 4096 * 4096"
    by simp
  then show ?thesis using three_digits [of c] by simp
qed

lemma decode_encode_cp:
  assumes "c < 1114112"
  shows "decode_utf8 (encode_cp c @ rest) =
         cons_ok (if is_surrogate c then 63 else c) (decode_utf8 rest)"
proof -
  consider "c < 128" | "128 \<le> c" "c < 2048" | "2048 \<le> c" "is_surrogate c"
    | "2048 \<le> c" "\<not> is_surrogate c" "c < 65536" | "65536 \<le> c"
    by linarith
  then show ?thesis
  proof cases
    case 1
    then show ?thesis
      by (simp add: encode_cp_def unat_byte_of is_surrogate_def)
  next
    case 2
    have ns: "\<not> is_surrogate c"
      using 2 by (simp add: is_surrogate_def)
    from 2 ns div64_less [of c] div64_ge [of c] show ?thesis
      by (simp add: encode_cp_def unat_byte_of is_cont_def)
  next
    case 3
    then show ?thesis
      by (simp add: encode_cp_def is_surrogate_def)
  next
    case 4
    from 4 div4096_less [of c] three_digits [of c] show ?thesis
      by (simp add: encode_cp_def unat_byte_of is_cont_def)
  next
    case 5
    have ns: "\<not> is_surrogate c"
      using 5 by (simp add: is_surrogate_def)
    from 5 assms ns div262144_less [of c] four_digits [of c] show ?thesis
      by (simp add: encode_cp_def unat_byte_of is_cont_def)
  qed
qed

lemma decode_encode_append:
  "is_str s \<Longrightarrow>
   decode_utf8 (encode_utf8_replace s @ rest) =
     (case decode_utf8 rest of Inl e \<Rightarrow> Inl e | Inr r \<Rightarrow> Inr (replace_surrogates s @ r))"
proof (induction s)
  case Nil
  show ?case
    by (simp add: encode_utf8_replace_def replace_surrogates_def split: sum.splits)
next
  case (Cons c s)
  then have c: "c < 1114112" and s: "is_str s"
    by (simp_all add: is_str_def)
  have "decode_utf8 (encode_utf8_replace (c # s) @ rest) =
        decode_utf8 (encode_cp c @ (encode_utf8_replace s @ rest))"
    by (simp add: encode_utf8_replace_def)
  also have "\<dots> = cons_ok (if is_surrogate c then 63 else c)
                      (decode_utf8 (encode_utf8_replace s @ rest))"
    by (rule decode_encode_cp [OF c])
  finally show ?case
    using Cons.IH [OF s]
    by (simp add: cons_ok_def replace_surrogates_def split: sum.splits)
qed

lemma clean_replace: "is_str s \<Longrightarrow> clean s = Inr (replace_surrogates s)"
  using decode_encode_append [of s "[]"] by (simp add: clean_def)

lemma clean_all_replace:
  "list_all is_str ss \<Longrightarrow> clean_all ss = Inr (map replace_surrogates ss)"
  by (induction ss) (simp_all add: clean_replace)

subsection \<open>Effects of the outside calls\<close>

lemma call_fst [simp]: "fst (call ev w) = next_ok w"
  by (simp add: call_def)

lemma call_fields [simp]:
  "trace (snd (call ev w)) = trace w @ [ev]"
  "faults (snd (call ev w)) = tl (faults w)"
  "redis_client (snd (call ev w)) = redis_client w"
  "stream (snd (call ev w)) = stream w"
  "last_delivered (snd (call ev w)) = last_delivered w"
  "pel (snd (call ev w)) = pel w"
  "store (snd (call ev w)) = store w"
  "processing_status (snd (call ev w)) = processing_status w"
  by (simp_all add: call_def log_def)

lemma log_fields [simp]:
  "trace (log ev w) = trace w @ [ev]"
  "faults (log ev w) = faults w"
  "redis_client (log ev w) = redis_client w"
  "stream (log ev w) = stream w"
  "last_delivered (log ev w) = last_delivered w"
  "pel (log ev w) = pel w"
  "store (log ev w) = store w"
  "processing_status (log ev w) = processing_status w"
  by (simp_all add: log_def)

lemma next_ok_log [simp]: "next_ok (log ev w) = next_ok w"
  by (simp add: next_ok_def)

lemma update_processing_status_fields [simp]:
  "trace (snd (update_processing_status p d w)) =
     trace w @ (if processing_status w p = None then [] else [REGISTER_UPDATE p d])"
  "faults (snd (update_processing_status p d w)) = faults w"
  "redis_client (snd (update_processing_status p d w)) = redis_client w"
  "stream (snd (update_processing_status p d w)) = stream w"
  "last_delivered (snd (update_processing_status p d w)) = last_delivered w"
  "pel (snd (update_processing_status p d w)) = pel w"
  "store (snd (update_processing_status p d w)) = store w"
  "processing_status (snd (update_processing_status p d w)) =
     (case processing_status w p of
        None \<Rightarrow> processing_status w
      | Some entry \<Rightarrow> (processing_status w)(p \<mapsto> dict_update entry d))"
  by (simp_all add: update_processing_status_def split: option.split)

lemma update_status_fields [simp]:
  "trace (update_status p d w) =
     trace w @ POST_update_status p d #
       (if next_ok w \<and> processing_status w p \<noteq> None then [REGISTER_UPDATE p d] else [])"
  "faults (update_status p d w) = tl (faults w)"
  "redis_client (update_status p d w) = redis_client w"
  "stream (update_status p d w) = stream w"
  "last_delivered (update_status p d w) = last_delivered w"
  "pel (update_status p d w) = pel w"
  "store (update_status p d w) = store w"
  "processing_status (update_status p d w) =
     (if next_ok w
      then (case processing_status w p of
              None \<Rightarrow> processing_status w
            | Some entry \<Rightarrow> (processing_status w)(p \<mapsto> dict_update entry d))
      else processing_status w)"
  by (simp_all add: update_status_def split_beta split: bool.split option.split)

lemma xack_fields [simp]:
  "trace (snd (xack m w)) = trace w @ [XACK m]"
  "faults (snd (xack m w)) = tl (faults w)"
  "redis_client (snd (xack m w)) = redis_client w"
  "stream (snd (xack m w)) = stream w"
  "last_delivered (snd (xack m w)) = last_delivered w"
  "pel (snd (xack m w)) = (if next_ok w then filter (\<lambda>p. fst p \<noteq> m) (pel w) else pel w)"
  "store (snd (xack m w)) = store w"
  "processing_status (snd (xack m w)) = processing_status w"
  by (simp_all add: xack_def split_beta split: bool.split)

lemma initialize_client: "redis_client (snd (initialize w))"
  by (simp add: initialize_def split_beta call_def log_def split: bool.split)

lemma acknowledge_message_eq:
  "redis_client w \<Longrightarrow> acknowledge_message m w = (Inr (), snd (xack m w))"
  by (simp add: acknowledge_message_def)

lemma setex_fields [simp]:
  "trace (snd (setex k n v w)) = trace w @ [SETEX k n v]"
  "faults (snd (setex k n v w)) = tl (faults w)"
  "redis_client (snd (setex k n v w)) = redis_client w"
  "stream (snd (setex k n v w)) = stream w"
  "last_delivered (snd (setex k n v w)) = last_delivered w"
  "pel (snd (setex k n v w)) = pel w"
  "store (snd (setex k n v w)) = (if next_ok w then (store w)(k \<mapsto> (v, n)) else store w)"
  "processing_status (snd (setex k n v w)) = processing_status w"
  by (simp_all add: setex_def split_beta split: bool.split)

lemma store_results_in_redis_eq:
  "redis_client w \<Longrightarrow>
   store_results_in_redis env p d w =
     snd (setex (py ''result:'' @ p) 86400 (json_dumps env (JObj d)) w)"
  by (simp add: store_results_in_redis_def store_result_def)

subsection \<open>The paths through the worker\<close>

lemma decode_message_Raise_id:
  "decode_message env flds = Raise e \<Longrightarrow>
   \<exists>pid. map_of flds (py ''processing_id'') = Some pid \<and> pid \<noteq> []"
  by (auto simp: decode_message_def none_or_empty_def Let_def split: option.splits if_splits)

lemma decode_message_Job_id:
  "decode_message env flds = Job pid f c p \<Longrightarrow>
   map_of flds (py ''processing_id'') = Some pid \<and> pid \<noteq> []"
  by (auto simp: decode_message_def none_or_empty_def Let_def
           split: option.splits if_splits sum.splits)

lemma process_message_Drop:
  "redis_client w \<Longrightarrow> decode_message env flds = Drop \<Longrightarrow>
   process_message env m flds w = (Inr (), snd (xack m w))"
  by (simp add: process_message_def process_try_def acknowledge_message_eq)

lemma process_message_Raise:
  assumes "redis_client w" and "decode_message env flds = Raise e"
    and "map_of flds (py ''processing_id'') = Some pid"
  shows "process_message env m flds w =
           (Inr (), snd (xack m (update_status pid (failed_update e) w)))"
proof -
  have "pid \<noteq> []"
    using decode_message_Raise_id [OF assms(2)] assms(3) by auto
  with assms show ?thesis
    by (simp add: process_message_def process_try_def acknowledge_message_eq)
qed

lemma finish_message_typed:
  assumes "redis_client w" and "typed_result r"
  shows "finish_message env m pid r w =
           (Inr (), snd (xack m (update_status pid (completed_status r)
              (snd (setex (py ''result:'' @ pid) 86400
                      (json_dumps env (JObj (stored_record r))) w)))))"
  using assms
  by (simp add: finish_message_def typed_result_def clean_replace clean_all_replace
        store_results_in_redis_eq acknowledge_message_eq stored_record_def completed_status_def)

lemma finish_message_cases:
  assumes "redis_client w"
  shows "(\<exists>e. finish_message env m pid r w = (Inl e, w)) \<or>
         (\<exists>d v. finish_message env m pid r w =
            (Inr (), snd (xack m (update_status pid ((py ''status'', JStr (py ''completed'')) # d)
               (snd (setex (py ''result:'' @ pid) 86400 v w))))))"
  using assms
  by (auto simp: finish_message_def store_results_in_redis_eq acknowledge_message_eq
        completed_update_def split: sum.splits)

lemma process_message_Job_raise:
  assumes "redis_client w" and "decode_message env flds = Job pid f c p"
    and "process_pdf env c f p = Inl e"
  shows "process_message env m flds w =
           (Inr (), snd (xack m (update_status pid (failed_update e)
              (log (PROCESS_PDF c f p) (update_status pid processing_update w)))))"
  using assms decode_message_Job_id [OF assms(2)]
  by (simp add: process_message_def process_try_def acknowledge_message_eq)

lemma process_message_Job_return:
  assumes "redis_client w" and "decode_message env flds = Job pid f c p"
    and "process_pdf env c f p = Inr r" and "typed_result r"
  shows "process_message env m flds w =
           (Inr (), snd (xack m (update_status pid (completed_status r)
              (snd (setex (py ''result:'' @ pid) 86400 (json_dumps env (JObj (stored_record r)))
                 (log (PROCESS_PDF c f p) (update_status pid processing_update w)))))))"
  using assms
  by (simp add: process_message_def process_try_def finish_message_typed)

subsection \<open>Submission\<close>

lemma since_append: "trace w' = trace w @ es \<Longrightarrow> since w w' = es"
  by (simp add: since_def)

lemma next_ok_register [simp]: "next_ok (w\<lparr>processing_status := r\<rparr>) = next_ok w"
  by (simp add: next_ok_def)

lemma xadd_fields [simp]:
  "fst (xadd f w) = (if next_ok w then Inr (length (stream w)) else Inl broker_error)"
  "trace (snd (xadd f w)) = trace w @ [XADD f]"
  "faults (snd (xadd f w)) = tl (faults w)"
  "redis_client (snd (xadd f w)) = redis_client w"
  "stream (snd (xadd f w)) = (if next_ok w then stream w @ [f] else stream w)"
  "last_delivered (snd (xadd f w)) = last_delivered w"
  "pel (snd (xadd f w)) = pel w"
  "store (snd (xadd f w)) = store w"
  "processing_status (snd (xadd f w)) = processing_status w"
  by (simp_all add: xadd_def split_beta split: bool.split)

lemma upload_pdf_state:
  "endswith file_name (py ''.pdf'') \<Longrightarrow>
   snd (upload_pdf env uuid4 file_name content parser w) =
     (let w1 = log (REGISTER_SET uuid4 (pending_entry env file_name parser))
                 (w\<lparr>processing_status :=
                      (processing_status w)(uuid4 \<mapsto> pending_entry env file_name parser)\<rparr>)
      in if redis_client w
         then snd (xadd [(py ''processing_id'', uuid4),
                         (py ''data'', json_dumps env
                            (JObj (upload_payload uuid4 file_name content parser)))] w1)
         else w1)"
  by (simp add: upload_pdf_def add_to_stream_def Let_def split_beta split: sum.split)

lemma upload_pdf_result:
  "endswith file_name (py ''.pdf'') \<Longrightarrow>
   fst (upload_pdf env uuid4 file_name content parser w) =
     (if \<not> redis_client w then Inl not_initialized
      else if \<not> next_ok w then Inl broker_error
      else Inr \<lparr>resp_processing_id = uuid4, resp_status = PENDING,
                resp_message = upload_message env parser, resp_parser = Some parser,
                resp_result = None\<rparr>)"
  by (simp add: upload_pdf_def add_to_stream_def Let_def split_beta next_ok_def xadd_def
        call_def split: sum.split)

text \<open>
  Claim C2.  For a submission with a \<open>.pdf\<close> file name, \<open>upload_pdf\<close> writes the
  \<open>pending\<close> entry for the generated id into the status register and then appends the
  stream entry carrying that id.  The entry is in the register with status \<open>pending\<close>
  when the call is over, whether it returned the id or raised; when the append fails
  (client not initialised, or the broker refuses) the stream is unchanged and the
  \<open>pending\<close> entry stays.
\<close>

theorem upload_pdf_pending_then_append:
  "endswith file_name (py ''.pdf'') \<Longrightarrow>
   (let entry = pending_entry env file_name parser;
        flds = [(py ''processing_id'', uuid4),
                (py ''data'', json_dumps env
                   (JObj (upload_payload uuid4 file_name content parser)))];
        r = fst (upload_pdf env uuid4 file_name content parser w);
        w' = snd (upload_pdf env uuid4 file_name content parser w)
    in processing_status w' uuid4 = Some entry \<and>
       map_of entry (py ''status'') = Some (JStr (ProcessingStatus_value PENDING)) \<and>
       since w w' = REGISTER_SET uuid4 entry # (if redis_client w then [XADD flds] else []) \<and>
       (if redis_client w \<and> next_ok w
        then r = Inr \<lparr>resp_processing_id = uuid4, resp_status = PENDING,
                      resp_message = upload_message env parser, resp_parser = Some parser,
                      resp_result = None\<rparr> \<and>
             stream w' = stream w @ [flds]
        else isl r \<and> stream w' = stream w))"
proof -
  assume pdf: "endswith file_name (py ''.pdf'')"
  let ?entry = "pending_entry env file_name parser"
  let ?w' = "snd (upload_pdf env uuid4 file_name content parser w)"
  have reg: "processing_status ?w' uuid4 = Some ?entry"
    by (simp add: upload_pdf_state [OF pdf] Let_def)
  have st: "map_of ?entry (py ''status'') = Some (JStr (ProcessingStatus_value PENDING))"
    by (simp add: pending_entry_def)
  have tr: "trace ?w' = trace w @ REGISTER_SET uuid4 ?entry #
              (if redis_client w
               then [XADD [(py ''processing_id'', uuid4),
                           (py ''data'', json_dumps env
                              (JObj (upload_payload uuid4 file_name content parser)))]]
               else [])"
    by (simp add: upload_pdf_state [OF pdf] Let_def)
  have str: "stream ?w' =
               (if redis_client w \<and> next_ok w
                then stream w @ [[(py ''processing_id'', uuid4),
                           (py ''data'', json_dumps env
                              (JObj (upload_payload uuid4 file_name content parser)))]]
                else stream w)"
    by (simp add: upload_pdf_state [OF pdf] Let_def)
  show ?thesis
    unfolding Let_def
    by (simp only: reg st since_append [OF tr] str upload_pdf_result [OF pdf]) auto
qed

theorem upload_pdf_pending_then_append_witness:
  "endswith (py ''a.pdf'') (py ''.pdf'') \<and>
   processing_status (snd (upload_pdf sample_env (py ''job-1'') (py ''a.pdf'') [37, 80] PYPDF (up [True])))
     (py ''job-1'') = Some (pending_entry sample_env (py ''a.pdf'') PYPDF) \<and>
   isl (fst (upload_pdf sample_env (py ''job-1'') (py ''a.pdf'') [37, 80] PYPDF (up [True]))) \<and>
   stream (snd (upload_pdf sample_env (py ''job-1'') (py ''a.pdf'') [37, 80] PYPDF (up [True]))) = []"
proof -
  have pdf: "endswith (py ''a.pdf'') (py ''.pdf'')"
    by (simp add: endswith_def py_def)
  have ok: "\<not> next_ok (up [True])"
    by (simp add: next_ok_def up_def start_def)
  have st: "stream (up [True]) = []"
    by (simp add: up_def start_def)
  show ?thesis
    using pdf ok st
      upload_pdf_pending_then_append [OF pdf, where parser = PYPDF and ?uuid4.0 = "py ''job-1''"
        and env = sample_env and content = "[37, 80]" and w = "up [True]"]
    by (simp add: Let_def)
qed

lemma parser_form_value: "parser_form (Some (ParserType_value p)) = Some p"
  by (cases p) (simp_all add: parser_form_def py_def)

lemma ParserType_of_value: "ParserType_of (JStr (ParserType_value p)) = Some p"
  by (cases p) (simp_all add: py_def)

lemma post_upload_pdf_refused:
  "s \<noteq> [] \<Longrightarrow> ParserType_of (JStr s) = None \<Longrightarrow>
   post_upload_pdf env uuid4 file_name content (Some s) w = (None, w)"
  by (simp add: post_upload_pdf_def parser_form_def)

lemma post_upload_pdf_default:
  "post_upload_pdf env uuid4 file_name content (Some []) w =
     post_upload_pdf env uuid4 file_name content None w"
  by (simp add: post_upload_pdf_def parser_form_def)

text \<open>
  Claim C3, as the code has it.  \<open>upload_pdf\<close> refuses with status 400 every submission whose
  file name does not end in \<open>.pdf\<close> and changes nothing then; the parser is a member of
  the closed enumeration, \<open>pypdf\<close> when the form field is absent or empty, and a
  non-empty field value outside the enumeration is refused when the request is validated,
  with nothing written; the content is not inspected: with a \<open>.pdf\<close> name, an initialised
  client and a broker that answers, the submission is accepted whatever its content, the
  empty content included.
\<close>

theorem upload_pdf_validation:
  "(\<not> endswith file_name (py ''.pdf'') \<longrightarrow>
      upload_pdf env uuid4 file_name content parser w =
        (Inl (HTTPException 400 (py ''Only PDF files are allowed'')), w)) \<and>
   parser_form None = Some PYPDF \<and>
   parser_form (Some []) = Some PYPDF \<and>
   parser_form (Some (ParserType_value parser)) = Some parser \<and>
   (s \<noteq> [] \<and> ParserType_of (JStr s) = None \<longrightarrow>
      post_upload_pdf env uuid4 file_name content (Some s) w = (None, w)) \<and>
   (endswith file_name (py ''.pdf'') \<and> redis_client w \<and> next_ok w \<longrightarrow>
      fst (upload_pdf env uuid4 file_name content parser w) =
        Inr \<lparr>resp_processing_id = uuid4, resp_status = PENDING,
             resp_message = upload_message env parser, resp_parser = Some parser,
             resp_result = None\<rparr>)"
proof -
  have a: "\<not> endswith file_name (py ''.pdf'') \<longrightarrow>
      upload_pdf env uuid4 file_name content parser w =
        (Inl (HTTPException 400 (py ''Only PDF files are allowed'')), w)"
    by (simp add: upload_pdf_def)
  have b: "parser_form None = Some PYPDF" "parser_form (Some []) = Some PYPDF"
    by (simp_all add: parser_form_def)
  have c: "s \<noteq> [] \<and> ParserType_of (JStr s) = None \<longrightarrow>
      post_upload_pdf env uuid4 file_name content (Some s) w = (None, w)"
    by (simp add: post_upload_pdf_refused)
  have d: "endswith file_name (py ''.pdf'') \<and> redis_client w \<and> next_ok w \<longrightarrow>
      fst (upload_pdf env uuid4 file_name content parser w) =
        Inr \<lparr>resp_processing_id = uuid4, resp_status = PENDING,
             resp_message = upload_message env parser, resp_parser = Some parser,
             resp_result = None\<rparr>"
    by (simp add: upload_pdf_result)
  from a b c d parser_form_value [of parser] show ?thesis
    by blast
qed

lemma sample_names:
  "endswith (py ''a.pdf'') (py ''.pdf'')" "\<not> endswith (py ''a.txt'') (py ''.pdf'')"
  "ParserType_of (JStr (py ''tesseract'')) = None" "py ''tesseract'' \<noteq> []"
  by (simp_all add: endswith_def py_def)

lemma up_fields [simp]:
  "redis_client (up fs)" "faults (up fs) = fs" "trace (up fs) = []" "stream (up fs) = []"
  "last_delivered (up fs) = 0" "pel (up fs) = []" "store (up fs) = Map.empty"
  "processing_status (up fs) = Map.empty"
  by (simp_all add: up_def start_def)

theorem upload_pdf_validation_witness:
  "upload_pdf sample_env (py ''job-1'') (py ''a.txt'') [37, 80] PYPDF (up []) =
     (Inl (HTTPException 400 (py ''Only PDF files are allowed'')), up []) \<and>
   post_upload_pdf sample_env (py ''job-1'') (py ''a.txt'') [37, 80] (Some (py ''tesseract'')) (up []) =
     (None, up []) \<and>
   fst (upload_pdf sample_env (py ''job-1'') (py ''a.pdf'') [] PYPDF (up [])) =
     Inr \<lparr>resp_processing_id = py ''job-1'', resp_status = PENDING,
          resp_message = upload_message sample_env PYPDF, resp_parser = Some PYPDF,
          resp_result = None\<rparr>"
proof -
  have ok: "next_ok (up [])"
    by (simp add: next_ok_def)
  show ?thesis
    using sample_names ok
      upload_pdf_validation [where file_name = "py ''a.txt''" and env = sample_env
        and ?uuid4.0 = "py ''job-1''" and content = "[37, 80]" and parser = PYPDF and w = "up []"
        and s = "py ''tesseract''"]
      upload_pdf_validation [where file_name = "py ''a.pdf''" and env = sample_env
        and ?uuid4.0 = "py ''job-1''" and content = "[]" and parser = PYPDF and w = "up []"
        and s = "py ''tesseract''"]
    by simp
qed

text \<open>
  Claim C3 as stated fails: a submission with empty content is accepted, its \<open>pending\<close>
  entry written and its stream entry appended.
\<close>

theorem upload_pdf_accepts_empty_content:
  "fst (post_upload_pdf sample_env (py ''job-1'') (py ''a.pdf'') [] None (up [])) =
     Some (Inr \<lparr>resp_processing_id = py ''job-1'', resp_status = PENDING,
          resp_message = upload_message sample_env PYPDF, resp_parser = Some PYPDF,
          resp_result = None\<rparr>) \<and>
   status_of (snd (post_upload_pdf sample_env (py ''job-1'') (py ''a.pdf'') [] None (up [])))
     (py ''job-1'') = Some (JStr (py ''pending'')) \<and>
   length (stream (snd (post_upload_pdf sample_env (py ''job-1'') (py ''a.pdf'') [] None (up [])))) = 1"
proof -
  have ok: "next_ok (up [])"
    by (simp add: next_ok_def)
  have f: "fst (post_upload_pdf sample_env (py ''job-1'') (py ''a.pdf'') [] None (up [])) =
           Some (fst (upload_pdf sample_env (py ''job-1'') (py ''a.pdf'') [] PYPDF (up [])))"
    and e: "snd (post_upload_pdf sample_env (py ''job-1'') (py ''a.pdf'') [] None (up [])) =
           snd (upload_pdf sample_env (py ''job-1'') (py ''a.pdf'') [] PYPDF (up []))"
    by (simp_all add: post_upload_pdf_def parser_form_def split_beta)
  show ?thesis
    using ok sample_names(1)
    by (simp add: f e upload_pdf_result upload_pdf_state Let_def status_of_def pending_entry_def)
qed

subsection \<open>The content on its way to the worker\<close>

lemma payload_keys [simp]:
  "py ''data'' \<noteq> py ''processing_id''" "py ''processing_id'' \<noteq> py ''data''"
  "py ''filename'' \<noteq> py ''content''" "py ''content'' \<noteq> py ''filename''"
  "py ''filename'' \<noteq> py ''parser''" "py ''parser'' \<noteq> py ''filename''"
  "py ''content'' \<noteq> py ''parser''" "py ''parser'' \<noteq> py ''content''"
  "py ''processing_id'' \<noteq> py ''parser''" "py ''parser'' \<noteq> py ''processing_id''"
  "py ''processing_id'' \<noteq> py ''content''" "py ''content'' \<noteq> py ''processing_id''"
  "py ''processing_id'' \<noteq> py ''filename''" "py ''filename'' \<noteq> py ''processing_id''"
  by (simp_all add: py_def)

lemma endswith_nonempty: "endswith s (py ''.pdf'') \<Longrightarrow> s \<noteq> []"
  by (auto simp: endswith_def py_def)

lemma decode_uploaded:
  assumes "uuid4 \<noteq> []" and "file_name \<noteq> []"
    and "json_dumps env (JObj (upload_payload uuid4 file_name content parser)) \<noteq> []"
    and "json_loads env (json_dumps env (JObj (upload_payload uuid4 file_name content parser))) =
           Inr (JObj (upload_payload uuid4 file_name content parser))"
  shows "decode_message env
           [(py ''processing_id'', uuid4),
            (py ''data'', json_dumps env (JObj (upload_payload uuid4 file_name content parser)))] =
         (if content = [] then Drop else Job uuid4 (JStr file_name) content parser)"
proof -
  have p: "(case ParserType_of (JStr (ParserType_value parser)) of None \<Rightarrow> PYPDF | Some q \<Rightarrow> q) =
           parser"
    by (simp only: ParserType_of_value option.case)
  show ?thesis
    using assms p
    by (simp add: decode_message_def none_or_empty_def upload_payload_def fromhex_hex hex_empty
          del: ParserType_of.simps)
qed

text \<open>
  Claim C4, as the code has it.  The gateway puts \<open>content.hex()\<close> into the payload, and
  \<open>bytes.fromhex\<close> gives back the content for every byte sequence, the empty one, null
  octets and octets that are not UTF-8 included.  When the JSON codec reads back the
  payload it wrote, the worker decodes the stream entry that \<open>upload_pdf\<close> appended
  to the job with exactly the submitted bytes, for every content that is not empty; the
  entry of an empty content is dropped at the worker's file name and content check,
  before the decoding step.
\<close>

theorem content_reaches_worker:
  "json_get (JObj (upload_payload uuid4 file_name content parser)) (py ''content'') JNull =
     Inr (JStr (hex content)) \<and>
   bytes_fromhex (JStr (hex content)) = Inr content \<and>
   (endswith file_name (py ''.pdf'') \<and> redis_client w \<and> next_ok w \<and> uuid4 \<noteq> [] \<and>
    json_dumps env (JObj (upload_payload uuid4 file_name content parser)) \<noteq> [] \<and>
    json_loads env (json_dumps env (JObj (upload_payload uuid4 file_name content parser))) =
      Inr (JObj (upload_payload uuid4 file_name content parser))
    \<longrightarrow> decode_message env
          (last (stream (snd (upload_pdf env uuid4 file_name content parser w)))) =
        (if content = [] then Drop else Job uuid4 (JStr file_name) content parser))"
proof -
  have a: "json_get (JObj (upload_payload uuid4 file_name content parser)) (py ''content'') JNull =
      Inr (JStr (hex content))"
    by (simp add: upload_payload_def)
  have b: "bytes_fromhex (JStr (hex content)) = Inr content"
    by (simp add: fromhex_hex)
  have c: "decode_message env
          (last (stream (snd (upload_pdf env uuid4 file_name content parser w)))) =
        (if content = [] then Drop else Job uuid4 (JStr file_name) content parser)"
    if "endswith file_name (py ''.pdf'')" and "redis_client w" and "next_ok w"
      and "uuid4 \<noteq> []"
      and "json_dumps env (JObj (upload_payload uuid4 file_name content parser)) \<noteq> []"
      and "json_loads env (json_dumps env (JObj (upload_payload uuid4 file_name content parser))) =
             Inr (JObj (upload_payload uuid4 file_name content parser))"
  proof -
    have l: "last (stream (snd (upload_pdf env uuid4 file_name content parser w))) =
             [(py ''processing_id'', uuid4),
              (py ''data'', json_dumps env (JObj (upload_payload uuid4 file_name content parser)))]"
      using that(2,3) by (simp add: upload_pdf_state [OF that(1)] Let_def)
    show ?thesis
      using decode_uploaded [OF that(4) endswith_nonempty [OF that(1)] that(5,6)]
      by (simp only: l)
  qed
  show ?thesis
    using a b c by blast
qed

lemma echo_codec:
  "json_dumps (echo_env v) x \<noteq> []" "json_loads (echo_env v) s = Inr v"
  by (simp_all add: echo_env_def py_def)

theorem content_reaches_worker_witness:
  "endswith (py ''a.pdf'') (py ''.pdf'') \<and> redis_client (up []) \<and> next_ok (up []) \<and>
   py ''job-1'' \<noteq> [] \<and>
   bytes_fromhex (JStr (hex [0, 255, 37])) = Inr [0, 255, 37] \<and>
   decode_message (echo_env (JObj (upload_payload (py ''job-1'') (py ''a.pdf'') [0, 255, 37] PYPDF)))
     (last (stream (snd (upload_pdf
        (echo_env (JObj (upload_payload (py ''job-1'') (py ''a.pdf'') [0, 255, 37] PYPDF)))
        (py ''job-1'') (py ''a.pdf'') [0, 255, 37] PYPDF (up []))))) =
     Job (py ''job-1'') (JStr (py ''a.pdf'')) [0, 255, 37] PYPDF"
proof -
  have ok: "next_ok (up [])"
    by (simp add: next_ok_def)
  have id: "py ''job-1'' \<noteq> []"
    by (simp add: py_def)
  have ne: "[0, 255, 37] \<noteq> ([] :: bytes)"
    by simp
  show ?thesis
    using ok id ne sample_names(1) up_fields(1) [of "[]"]
      echo_codec [of "JObj (upload_payload (py ''job-1'') (py ''a.pdf'') [0, 255, 37] PYPDF)"]
      content_reaches_worker [where file_name = "py ''a.pdf''" and w = "up []"
        and ?uuid4.0 = "py ''job-1''" and content = "[0, 255, 37]" and parser = PYPDF
        and env = "echo_env (JObj (upload_payload (py ''job-1'') (py ''a.pdf'') [0, 255, 37] PYPDF))"]
    by (simp only: simp_thms if_False)
qed

text \<open>
  Claim C4 as stated fails for the empty byte sequence: the worker drops the entry of
  an upload with empty content and never decodes it.
\<close>

theorem empty_content_never_decoded:
  "decode_message (echo_env (JObj (upload_payload (py ''job-1'') (py ''a.pdf'') [] PYPDF)))
     (last (stream (snd (upload_pdf
        (echo_env (JObj (upload_payload (py ''job-1'') (py ''a.pdf'') [] PYPDF)))
        (py ''job-1'') (py ''a.pdf'') [] PYPDF (up []))))) = Drop"
proof -
  have ok: "next_ok (up [])"
    by (simp add: next_ok_def)
  have id: "py ''job-1'' \<noteq> []" "py ''a.pdf'' \<noteq> []"
    by (simp_all add: py_def)
  have l: "last (stream (snd (upload_pdf
        (echo_env (JObj (upload_payload (py ''job-1'') (py ''a.pdf'') [] PYPDF)))
        (py ''job-1'') (py ''a.pdf'') [] PYPDF (up [])))) =
        [(py ''processing_id'', py ''job-1''),
         (py ''data'', json_dumps (echo_env (JObj (upload_payload (py ''job-1'') (py ''a.pdf'') [] PYPDF)))
            (JObj (upload_payload (py ''job-1'') (py ''a.pdf'') [] PYPDF)))]"
    using ok by (simp add: upload_pdf_state [OF sample_names(1)] Let_def)
  show ?thesis
    using decode_uploaded [OF id echo_codec(1) echo_codec(2), where content = "[]" and parser = PYPDF]
    by (simp only: l simp_thms if_True)
qed

subsection \<open>Parser fallback\<close>

lemma decode_message_Job:
  assumes "map_of flds (py ''processing_id'') = Some pid" and "pid \<noteq> []"
    and "map_of flds (py ''data'') = Some dj" and "dj \<noteq> []"
    and "json_loads env dj = Inr data"
    and "json_get data (py ''filename'') JNull = Inr f" and "truthy f"
    and "json_get data (py ''content'') JNull = Inr c" and "truthy c"
    and "bytes_fromhex c = Inr bs"
    and "json_get data (py ''parser'') (JStr (py ''pypdf'')) = Inr ps"
  shows "decode_message env flds =
           Job pid f bs (case ParserType_of ps of None \<Rightarrow> PYPDF | Some p \<Rightarrow> p)"
  using assms by (simp add: decode_message_def none_or_empty_def)

lemma process_message_Job_calls:
  assumes "redis_client w" and "decode_message env flds = Job pid f bs p"
  shows "take 2 (calls (since w (snd (process_message env m flds w)))) =
           [POST_update_status pid processing_update, PROCESS_PDF bs f p]"
proof (cases "process_pdf env bs f p")
  case (Inl e)
  show ?thesis
    by (simp add: process_message_Job_raise [OF assms Inl] since_def calls_def)
next
  case (Inr r)
  have id: "map_of flds (py ''processing_id'') = Some pid" "pid \<noteq> []"
    using decode_message_Job_id [OF assms(2)] by simp_all
  from finish_message_cases [OF _, of "log (PROCESS_PDF bs f p) (update_status pid processing_update w)" env m pid r]
  consider e where "finish_message env m pid r (log (PROCESS_PDF bs f p) (update_status pid processing_update w)) = (Inl e, log (PROCESS_PDF bs f p) (update_status pid processing_update w))"
    | d v where "finish_message env m pid r (log (PROCESS_PDF bs f p) (update_status pid processing_update w)) =
            (Inr (), snd (xack m (update_status pid ((py ''status'', JStr (py ''completed'')) # d)
               (snd (setex (py ''result:'' @ pid) 86400 v (log (PROCESS_PDF bs f p) (update_status pid processing_update w)))))))"
    using assms(1) by auto
  then show ?thesis
  proof cases
    case 1
    with assms Inr id show ?thesis
      by (simp add: process_message_def process_try_def acknowledge_message_eq since_def calls_def)
  next
    case 2
    with assms Inr id show ?thesis
      by (simp add: process_message_def process_try_def since_def calls_def)
  qed
qed

lemma sample_decode:
  "map_of sample_fields (py ''processing_id'') = Some (py ''job-1'')" "py ''job-1'' \<noteq> []"
  "map_of sample_fields (py ''data'') = Some (py ''{}'')" "py ''{}'' \<noteq> []"
  "json_loads sample_env (py ''{}'') = Inr sample_payload"
  "json_get sample_payload (py ''filename'') JNull = Inr (JStr (py ''a.pdf''))"
  "truthy (JStr (py ''a.pdf''))"
  "json_get sample_payload (py ''content'') JNull = Inr (JStr (py ''2550''))"
  "truthy (JStr (py ''2550''))"
  "bytes_fromhex (JStr (py ''2550'')) = Inr [37, 80]"
  "json_get sample_payload (py ''parser'') (JStr (py ''pypdf'')) = Inr (JStr (py ''tesseract''))"
  "ParserType_of (JStr (py ''tesseract'')) = None"
  by (simp_all add: sample_fields_def sample_env_def sample_payload_def py_def
        is_space_def digit_value_def fromhex_def)

text \<open>
  Claim C7, as the code has it.  A stream entry whose payload names a parser outside the
  enumeration is not refused: the worker decodes it with \<open>pypdf\<close> in place of the unknown
  name, posts \<open>processing\<close> and calls the strategy with \<open>pypdf\<close>.  At the gateway a
  submission with an empty parser field takes the default \<open>pypdf\<close>, like one without the
  field, and a submission with a non-empty parser string outside the enumeration is
  refused when the request is validated: nothing is written or queued.
\<close>

theorem unknown_parser_falls_back_in_worker:
  "(redis_client w \<and>
    map_of flds (py ''processing_id'') = Some pid \<and> pid \<noteq> [] \<and>
    map_of flds (py ''data'') = Some dj \<and> dj \<noteq> [] \<and>
    json_loads env dj = Inr data \<and>
    json_get data (py ''filename'') JNull = Inr f \<and> truthy f \<and>
    json_get data (py ''content'') JNull = Inr c \<and> truthy c \<and>
    bytes_fromhex c = Inr bs \<and>
    json_get data (py ''parser'') (JStr (py ''pypdf'')) = Inr ps \<and>
    ParserType_of ps = None
    \<longrightarrow> decode_message env flds = Job pid f bs PYPDF \<and>
        take 2 (calls (since w (snd (process_message env m flds w)))) =
          [POST_update_status pid processing_update, PROCESS_PDF bs f PYPDF]) \<and>
   post_upload_pdf env uuid4 file_name content (Some []) v =
     post_upload_pdf env uuid4 file_name content None v \<and>
   (s \<noteq> [] \<and> ParserType_of (JStr s) = None \<longrightarrow>
      post_upload_pdf env uuid4 file_name content (Some s) v = (None, v))"
proof -
  have worker: "decode_message env flds = Job pid f bs PYPDF \<and>
        take 2 (calls (since w (snd (process_message env m flds w)))) =
          [POST_update_status pid processing_update, PROCESS_PDF bs f PYPDF]"
    if "redis_client w"
      and "map_of flds (py ''processing_id'') = Some pid" and "pid \<noteq> []"
      and "map_of flds (py ''data'') = Some dj" and "dj \<noteq> []"
      and "json_loads env dj = Inr data"
      and "json_get data (py ''filename'') JNull = Inr f" and "truthy f"
      and "json_get data (py ''content'') JNull = Inr c" and "truthy c"
      and "bytes_fromhex c = Inr bs"
      and "json_get data (py ''parser'') (JStr (py ''pypdf'')) = Inr ps"
      and "ParserType_of ps = None"
  proof -
    have job: "decode_message env flds = Job pid f bs PYPDF"
      using decode_message_Job [OF that(2-12)] that(13) by simp
    show ?thesis
      using job process_message_Job_calls [OF that(1) job] by simp
  qed
  show ?thesis
    using worker post_upload_pdf_default [of env uuid4 file_name content v]
      post_upload_pdf_refused [of s env uuid4 file_name content v]
    by blast
qed

theorem unknown_parser_falls_back_in_worker_witness:
  "decode_message sample_env sample_fields = Job (py ''job-1'') (JStr (py ''a.pdf'')) [37, 80] PYPDF \<and>
   take 2 (calls (since (up []) (snd (process_message sample_env 0 sample_fields (up []))))) =
     [POST_update_status (py ''job-1'') processing_update,
      PROCESS_PDF [37, 80] (JStr (py ''a.pdf'')) PYPDF] \<and>
   post_upload_pdf sample_env (py ''job-1'') (py ''a.pdf'') [37, 80] (Some (py ''tesseract'')) (up []) =
     (None, up [])"
  using up_fields(1) [of "[]"] sample_decode sample_names(4)
    unknown_parser_falls_back_in_worker [where w = "up []" and flds = sample_fields
      and pid = "py ''job-1''" and dj = "py ''{}''" and env = sample_env and data = sample_payload
      and f = "JStr (py ''a.pdf'')" and c = "JStr (py ''2550'')" and bs = "[37, 80]"
      and ps = "JStr (py ''tesseract'')" and m = 0 and ?uuid4.0 = "py ''job-1''"
      and file_name = "py ''a.pdf''" and content = "[37, 80]" and v = "up []"
      and s = "py ''tesseract''"]
  by simp

text \<open>
  Claim C7 as stated fails at the gateway: a submission with the parser field
  \<open>tesseract\<close> is refused with the 422 of the request validation, and neither a status
  entry nor a stream entry is written.
\<close>

theorem unknown_parser_refused_at_upload:
  "post_upload_pdf sample_env (py ''job-1'') (py ''a.pdf'') [37, 80] (Some (py ''tesseract'')) (up []) =
     (None, up [])"
  by (simp add: post_upload_pdf_def parser_form_def py_def)

subsection \<open>Result retrieval\<close>

lemma get_fields [simp]:
  "fst (get k w) = (if next_ok w then Inr (map_option fst (store w k)) else Inl broker_error)"
  "trace (snd (get k w)) = trace w @ [GET k]"
  "faults (snd (get k w)) = tl (faults w)"
  "redis_client (snd (get k w)) = redis_client w"
  "stream (snd (get k w)) = stream w"
  "last_delivered (snd (get k w)) = last_delivered w"
  "pel (snd (get k w)) = pel w"
  "store (snd (get k w)) = store w"
  "processing_status (snd (get k w)) = processing_status w"
  by (simp_all add: get_def split_beta split: bool.split)

lemma get_result_value:
  "redis_client w \<Longrightarrow>
   fst (get_result env pid w) =
     Inr (if \<not> next_ok w then None
          else case store w (py ''result:'' @ pid) of
                 None \<Rightarrow> None
               | Some (d, t) \<Rightarrow>
                   if d = [] then None
                   else case json_loads env d of Inl e \<Rightarrow> None | Inr v \<Rightarrow> Some v)"
proof -
  assume up: "redis_client w"
  obtain r w1 where g: "get (py ''result:'' @ pid) w = (r, w1)"
    by (cases "get (py ''result:'' @ pid) w")
  have r: "r = (if next_ok w then Inr (map_option fst (store w (py ''result:'' @ pid)))
                else Inl broker_error)"
    using get_fields(1) [of "py ''result:'' @ pid" w] g by simp
  show ?thesis
    using up g r
    by (auto simp: get_result_def split: option.splits sum.splits)
qed

lemma get_processing_results_None:
  "fst (get_result env pid w) = Inr None \<Longrightarrow>
   fst (get_processing_results env pid w) = Inl results_not_found"
  by (cases "get_result env pid w") (simp add: get_processing_results_def)

text \<open>
  Claim C10, as the code has it.  With the Redis client initialised, \<open>get_result\<close> never
  raises; a broker error on \<open>GET\<close>, a key that is absent (never written or expired), an
  empty value and a value that \<open>json.loads\<close> refuses all give \<open>None\<close>, and
  \<open>GET /results\<close> then answers 404.  Before the client is initialised \<open>get_result\<close>
  raises and \<open>GET /results\<close> answers 500.
\<close>

theorem get_result_failures_not_found:
  "(redis_client w \<longrightarrow>
      \<not> isl (fst (get_result env pid w)) \<and>
      (\<not> next_ok w \<or> store w (py ''result:'' @ pid) = None \<or>
       (\<exists>d t. store w (py ''result:'' @ pid) = Some (d, t) \<and> (d = [] \<or> isl (json_loads env d)))
       \<longrightarrow> fst (get_result env pid w) = Inr None \<and>
           fst (get_processing_results env pid w) = Inl results_not_found)) \<and>
   (\<not> redis_client w \<longrightarrow>
      get_result env pid w = (Inl not_initialized, w) \<and>
      get_processing_results env pid w = (Inl (retrieval_failed not_initialized), w))"
proof -
  have down: "\<not> redis_client w \<longrightarrow>
      get_result env pid w = (Inl not_initialized, w) \<and>
      get_processing_results env pid w = (Inl (retrieval_failed not_initialized), w)"
    by (simp add: get_result_def get_processing_results_def)
  have up: "redis_client w \<longrightarrow> \<not> isl (fst (get_result env pid w))"
    by (simp add: get_result_value)
  have none: "fst (get_result env pid w) = Inr None"
    if "redis_client w"
      and "\<not> next_ok w \<or> store w (py ''result:'' @ pid) = None \<or>
       (\<exists>d t. store w (py ''result:'' @ pid) = Some (d, t) \<and> (d = [] \<or> isl (json_loads env d)))"
    using that by (auto simp: get_result_value isl_def)
  show ?thesis
    using down up none get_processing_results_None [of env pid w] by blast
qed

theorem get_result_failures_not_found_witness:
  "redis_client garbled \<and>
   store garbled (py ''result:'' @ py ''job-1'') = Some (py ''{not json'', 86400) \<and>
   isl (json_loads sample_env (py ''{not json'')) \<and>
   fst (get_result sample_env (py ''job-1'') garbled) = Inr None \<and>
   fst (get_processing_results sample_env (py ''job-1'') garbled) = Inl results_not_found \<and>
   \<not> redis_client (start []) \<and>
   get_processing_results sample_env (py ''job-1'') (start []) =
     (Inl (retrieval_failed not_initialized), start [])"
proof -
  have a: "redis_client garbled"
    by (simp add: garbled_def)
  have b: "store garbled (py ''result:'' @ py ''job-1'') = Some (py ''{not json'', 86400)"
    by (simp add: garbled_def py_def)
  have c: "isl (json_loads sample_env (py ''{not json''))"
    by (simp add: sample_env_def py_def)
  have d: "\<not> redis_client (start [])"
    by (simp add: start_def)
  show ?thesis
    using a b c d
      get_result_failures_not_found [of garbled sample_env "py ''job-1''"]
      get_result_failures_not_found [of "start []" sample_env "py ''job-1''"]
    by blast
qed

text \<open>
  Claim C10 as stated fails: on a service whose client is not initialised the lookup
  raises and \<open>GET /results\<close> answers 500, not 404.
\<close>

theorem get_results_uninitialised_500:
  "fst (get_processing_results sample_env (py ''job-1'') (start [])) =
     Inl (HTTPException 500 (py ''Failed to retrieve results: Redis client not initialized''))"
  by (simp add: get_processing_results_def get_result_def start_def retrieval_failed_def
        not_initialized_def py_def)

subsection \<open>Reading traces\<close>

lemma acks_append [simp]: "acks (xs @ ys) = acks xs @ acks ys"
  by (induction xs rule: acks.induct) simp_all

lemma deliveries_append [simp]: "deliveries (xs @ ys) = deliveries xs @ deliveries ys"
  by (induction xs rule: deliveries.induct) simp_all

lemma posts_append [simp]: "posts (xs @ ys) = posts xs @ posts ys"
  by (induction xs rule: posts.induct) simp_all

lemma calls_simps [simp]:
  "calls [] = []" "calls (xs @ ys) = calls xs @ calls ys"
  "calls (e # es) = (if is_call e then e # calls es else calls es)"
  by (simp_all add: calls_def)

lemma map_of_dict_update:
  "map_of (dict_update d e) k =
     (case map_of (rev e) k of None \<Rightarrow> map_of d k | Some v \<Rightarrow> Some v)"
proof -
  have "map_of (fold (\<lambda>(k, v). AList.update k v) e d) = map_of d ++ map_of (rev e)" for d
  proof (induction e arbitrary: d)
    case Nil
    show ?case by simp
  next
    case (Cons x e)
    obtain a b where x: "x = (a, b)"
      by (cases x)
    have "map_of (fold (\<lambda>(k, v). AList.update k v) (x # e) d) =
          map_of (AList.update a b d) ++ map_of (rev e)"
      using Cons.IH [of "AList.update a b d"] x by simp
    also have "\<dots> = (map_of d)(a \<mapsto> b) ++ map_of (rev e)"
      by (simp add: update_conv')
    also have "\<dots> = map_of d ++ map_of (rev (x # e))"
      by (simp add: x map_add_def fun_eq_iff split: option.splits)
    finally show ?case .
  qed
  then show ?thesis
    by (simp add: dict_update_def map_add_def)
qed

lemma status_keys [simp]:
  "py ''status'' \<noteq> py ''message''" "py ''message'' \<noteq> py ''status''"
  "py ''status'' \<noteq> py ''parser''" "py ''parser'' \<noteq> py ''status''"
  "py ''status'' \<noteq> py ''result''" "py ''result'' \<noteq> py ''status''"
  "py ''status'' \<noteq> py ''filename''" "py ''filename'' \<noteq> py ''status''"
  by (simp_all add: py_def)

lemma status_values [simp]:
  "py ''pending'' \<noteq> py ''failed''" "py ''completed'' \<noteq> py ''failed''"
  "py ''processing'' \<noteq> py ''failed''" "py ''completed'' \<noteq> py ''processing''"
  "py ''pending'' \<noteq> py ''processing''" "py ''pending'' \<noteq> py ''completed''"
  by (simp_all add: py_def)

lemma status_of_update:
  "map_of (dict_update d ((py ''status'', v) # e)) (py ''status'') =
     (case map_of (rev e) (py ''status'') of None \<Rightarrow> Some v | Some u \<Rightarrow> Some u)"
  by (simp add: map_of_dict_update map_add_def split: option.splits)

subsection \<open>Entries that cannot be decoded\<close>

lemma decode_message_Drop:
  assumes "none_or_empty (map_of flds (py ''processing_id'')) \<or>
           none_or_empty (map_of flds (py ''data'')) \<or>
           (\<exists>dj kvs f c. map_of flds (py ''data'') = Some dj \<and>
              json_loads env dj = Inr (JObj kvs) \<and>
              json_get (JObj kvs) (py ''filename'') JNull = Inr f \<and>
              json_get (JObj kvs) (py ''content'') JNull = Inr c \<and>
              (\<not> truthy f \<or> \<not> truthy c))"
  shows "decode_message env flds = Drop"
  using assms
  by (auto simp: decode_message_def none_or_empty_def Let_def split: option.splits)

lemma decode_message_unparseable:
  assumes "map_of flds (py ''processing_id'') = Some pid" and "pid \<noteq> []"
    and "map_of flds (py ''data'') = Some dj" and "dj \<noteq> []"
    and "json_loads env dj = Inl e"
  shows "decode_message env flds = Raise e"
  using assms by (simp add: decode_message_def none_or_empty_def)

text \<open>
  Claim C5, as the code has it.  An entry without a \<open>processing_id\<close> or \<open>data\<close> field (or
  with an empty one), and an entry whose payload is a JSON object without a file name or
  content, is acknowledged at once and dropped: the acknowledgement is the only thing the
  worker does, and neither the status register nor the result store changes.  An entry
  with a \<open>processing_id\<close> whose payload is not parseable JSON is not dropped in silence:
  the worker posts the status \<open>failed\<close>, with the parser's message, for its job and then
  acknowledges it.
\<close>

theorem malformed_entry_dropped:
  assumes "redis_client w"
  shows
   "(none_or_empty (map_of flds (py ''processing_id'')) \<or>
     none_or_empty (map_of flds (py ''data'')) \<or>
     (\<exists>dj kvs f c. map_of flds (py ''data'') = Some dj \<and>
        json_loads env dj = Inr (JObj kvs) \<and>
        json_get (JObj kvs) (py ''filename'') JNull = Inr f \<and>
        json_get (JObj kvs) (py ''content'') JNull = Inr c \<and>
        (\<not> truthy f \<or> \<not> truthy c))
     \<longrightarrow> fst (process_message env m flds w) = Inr () \<and>
         since w (snd (process_message env m flds w)) = [XACK m] \<and>
         processing_status (snd (process_message env m flds w)) = processing_status w \<and>
         store (snd (process_message env m flds w)) = store w) \<and>
    (map_of flds (py ''processing_id'') = Some pid \<and> pid \<noteq> [] \<and>
     map_of flds (py ''data'') = Some dj \<and> dj \<noteq> [] \<and> json_loads env dj = Inl e
     \<longrightarrow> calls (since w (snd (process_message env m flds w))) =
           [POST_update_status pid (failed_update e), XACK m] \<and>
         (next_ok w \<and> processing_status w pid \<noteq> None
          \<longrightarrow> status_of (snd (process_message env m flds w)) pid =
                Some (JStr (ProcessingStatus_value FAILED))))"
proof -
  have drop: "fst (process_message env m flds w) = Inr () \<and>
         since w (snd (process_message env m flds w)) = [XACK m] \<and>
         processing_status (snd (process_message env m flds w)) = processing_status w \<and>
         store (snd (process_message env m flds w)) = store w"
    if "decode_message env flds = Drop"
    by (simp add: process_message_Drop [OF assms that] since_def)
  have bad: "calls (since w (snd (process_message env m flds w))) =
           [POST_update_status pid (failed_update e), XACK m] \<and>
         (next_ok w \<and> processing_status w pid \<noteq> None
          \<longrightarrow> status_of (snd (process_message env m flds w)) pid =
                Some (JStr (ProcessingStatus_value FAILED)))"
    if "decode_message env flds = Raise e" and "map_of flds (py ''processing_id'') = Some pid"
    by (auto simp: process_message_Raise [OF assms that] since_def status_of_def
          failed_update_def status_of_update)
  show ?thesis
    using drop bad decode_message_Drop [of flds env] decode_message_unparseable [of flds pid dj env e]
    by blast
qed

lemma bad_decode:
  "map_of bad_fields (py ''processing_id'') = Some (py ''job-1'')" "py ''job-1'' \<noteq> []"
  "map_of bad_fields (py ''data'') = Some (py ''{not json'')" "py ''{not json'' \<noteq> []"
  "json_loads sample_env (py ''{not json'') = Inl (Error (py ''Expecting value''))"
  by (simp_all add: bad_fields_def sample_env_def py_def)

lemma queued_fields [simp]:
  "redis_client (queued fs)" "faults (queued fs) = fs" "trace (queued fs) = []"
  "store (queued fs) = Map.empty" "pel (queued fs) = []"
  "processing_status (queued fs) (py ''job-1'') = Some (pending_entry sample_env (py ''a.pdf'') PYPDF)"
  by (simp_all add: queued_def)

theorem malformed_entry_dropped_witness:
  "none_or_empty (map_of [(py ''data'', py ''{}'')] (py ''processing_id'')) \<and>
   since (queued []) (snd (process_message sample_env 0 [(py ''data'', py ''{}'')] (queued []))) = [XACK 0] \<and>
   processing_status (snd (process_message sample_env 0 [(py ''data'', py ''{}'')] (queued []))) =
     processing_status (queued []) \<and>
   calls (since (queued []) (snd (process_message sample_env 0 bad_fields (queued [])))) =
     [POST_update_status (py ''job-1'') (failed_update (Error (py ''Expecting value''))), XACK 0] \<and>
   status_of (snd (process_message sample_env 0 bad_fields (queued []))) (py ''job-1'') =
     Some (JStr (ProcessingStatus_value FAILED))"
proof -
  have a: "none_or_empty (map_of [(py ''data'', py ''{}'')] (py ''processing_id''))"
    by (simp add: none_or_empty_def py_def)
  have b: "next_ok (queued [])"
    by (simp add: next_ok_def)
  show ?thesis
    using a b bad_decode
      malformed_entry_dropped [OF queued_fields(1), of "[(py ''data'', py ''{}'')]" sample_env 0 "[]"
         "py ''job-1''" "[]" "Error []"]
      malformed_entry_dropped [OF queued_fields(1), of bad_fields sample_env 0 "[]"
         "py ''job-1''" "py ''{not json''" "Error (py ''Expecting value'')"]
    by simp
qed

text \<open>
  Claim C5 as stated fails: for the queued job \<open>job-1\<close>, an entry whose payload is not JSON
  leaves the status \<open>failed\<close> in the register, where the client reads it.
\<close>

theorem unparseable_payload_marked_failed:
  "status_of (queued []) (py ''job-1'') = Some (JStr (py ''pending'')) \<and>
   status_of (snd (process_message sample_env 0 bad_fields (queued []))) (py ''job-1'') =
     Some (JStr (py ''failed''))"
proof -
  have r: "decode_message sample_env bad_fields = Raise (Error (py ''Expecting value''))"
    by (rule decode_message_unparseable [OF bad_decode])
  have b: "next_ok (queued [])"
    by (simp add: next_ok_def)
  show ?thesis
    using b
    by (simp add: process_message_Raise [OF queued_fields(1) r bad_decode(1)] status_of_def
          failed_update_def status_of_update pending_entry_def)
qed

subsection \<open>Strategy failures and swallowed failures\<close>

lemma typed_sample: "typed_result sample_result"
  by (simp add: typed_result_def sample_result_def is_str_def py_def)

lemma sample_job:
  "decode_message sample_env sample_fields = Job (py ''job-1'') (JStr (py ''a.pdf'')) [37, 80] PYPDF"
  using decode_message_Job [OF sample_decode(1-11)] sample_decode(12) by simp

lemma sample_strategy:
  "process_pdf sample_env [37, 80] (JStr (py ''a.pdf'')) PYPDF = Inr sample_result"
  by (simp add: sample_env_def)

text \<open>
  Claim C6, as the code has it.  For a delivered entry that decodes to a job: when the
  strategy raises, the worker posts the status \<open>failed\<close> with the message
  \<open>Processing failed:\<close> followed by the reason, and acknowledges the entry; when no
  outside call fails and the job is known, the register then holds \<open>failed\<close>.  A failure of a
  status post or of the result store is logged where it happens and raises nothing:
  when the strategy returns, the worker stores, posts \<open>completed\<close> and acknowledges,
  whichever of these calls fail, and never posts \<open>failed\<close>.
\<close>

theorem strategy_failure_marked_failed:
  assumes "redis_client w" and "decode_message env flds = Job pid f bs p"
  shows
   "(process_pdf env bs f p = Inl e \<longrightarrow>
       fst (process_message env m flds w) = Inr () \<and>
       calls (since w (snd (process_message env m flds w))) =
         [POST_update_status pid processing_update, PROCESS_PDF bs f p,
          POST_update_status pid
            [(py ''status'', JStr (py ''failed'')),
             (py ''message'', JStr (py ''Processing failed: '' @ exn_str e))],
          XACK m] \<and>
       (faults w = [] \<and> processing_status w pid \<noteq> None \<longrightarrow>
          status_of (snd (process_message env m flds w)) pid = Some (JStr (py ''failed'')))) \<and>
    (process_pdf env bs f p = Inr r \<and> typed_result r \<longrightarrow>
       fst (process_message env m flds w) = Inr () \<and>
       calls (since w (snd (process_message env m flds w))) =
         [POST_update_status pid processing_update, PROCESS_PDF bs f p,
          SETEX (py ''result:'' @ pid) 86400 (json_dumps env (JObj (stored_record r))),
          POST_update_status pid (completed_status r),
          XACK m])"
proof -
  have raise: "fst (process_message env m flds w) = Inr () \<and>
       calls (since w (snd (process_message env m flds w))) =
         [POST_update_status pid processing_update, PROCESS_PDF bs f p,
          POST_update_status pid
            [(py ''status'', JStr (py ''failed'')),
             (py ''message'', JStr (py ''Processing failed: '' @ exn_str e))],
          XACK m] \<and>
       (faults w = [] \<and> processing_status w pid \<noteq> None \<longrightarrow>
          status_of (snd (process_message env m flds w)) pid = Some (JStr (py ''failed'')))"
    if "process_pdf env bs f p = Inl e"
    by (auto simp: process_message_Job_raise [OF assms that] since_def failed_update_def
          status_of_def next_ok_def status_of_update)
  have return: "fst (process_message env m flds w) = Inr () \<and>
       calls (since w (snd (process_message env m flds w))) =
         [POST_update_status pid processing_update, PROCESS_PDF bs f p,
          SETEX (py ''result:'' @ pid) 86400 (json_dumps env (JObj (stored_record r))),
          POST_update_status pid (completed_status r),
          XACK m]"
    if "process_pdf env bs f p = Inr r" and "typed_result r"
    by (simp add: process_message_Job_return [OF assms that] since_def)
  show ?thesis
    using raise return by blast
qed

theorem strategy_failure_marked_failed_witness:
  "redis_client (queued [False, True, True]) \<and>
   decode_message sample_env sample_fields = Job (py ''job-1'') (JStr (py ''a.pdf'')) [37, 80] PYPDF \<and>
   process_pdf sample_env [37, 80] (JStr (py ''a.pdf'')) PYPDF = Inr sample_result \<and>
   typed_result sample_result \<and>
   calls (since (queued [False, True, True])
            (snd (process_message sample_env 0 sample_fields (queued [False, True, True])))) =
     [POST_update_status (py ''job-1'') processing_update,
      PROCESS_PDF [37, 80] (JStr (py ''a.pdf'')) PYPDF,
      SETEX (py ''result:'' @ py ''job-1'') 86400 (json_dumps sample_env (JObj (stored_record sample_result))),
      POST_update_status (py ''job-1'') (completed_status sample_result),
      XACK 0]"
  using queued_fields(1) [of "[False, True, True]"] sample_job sample_strategy typed_sample
    strategy_failure_marked_failed [OF queued_fields(1) sample_job,
      where fs1 = "[False, True, True]" and e = "Error []" and m = 0 and r = sample_result]
  by simp

text \<open>
  Claim C6 as stated fails: when the result store refuses the record, the exception is
  swallowed in \<open>_store_results_in_redis\<close>; the job ends \<open>completed\<close>, not \<open>failed\<close>, with
  no record stored.
\<close>

theorem store_failure_not_marked_failed:
  "status_of (snd (process_message sample_env 0 sample_fields (queued [False, True])))
     (py ''job-1'') = Some (JStr (py ''completed'')) \<and>
   store (snd (process_message sample_env 0 sample_fields (queued [False, True])))
     (py ''result:'' @ py ''job-1'') = None"
  by (simp add: process_message_Job_return [OF queued_fields(1) sample_job sample_strategy typed_sample]
        status_of_def next_ok_def completed_status_def completed_update_def status_of_update
        processing_update_def map_of_dict_update)

subsection \<open>Status transitions\<close>

lemma finished_fields [simp]:
  "redis_client finished" "faults finished = []"
  "processing_status finished (py ''job-1'') =
     Some (dict_update (pending_entry sample_env (py ''a.pdf'') PYPDF) (completed_status sample_result))"
  by (simp_all add: finished_def)

lemma process_message_posts:
  assumes "redis_client w"
  shows "map (\<lambda>x. map_of (snd x) (py ''status''))
           (posts (since w (snd (process_message env m flds w)))) \<in>
         {[], [Some (JStr (py ''failed''))],
          [Some (JStr (py ''processing'')), Some (JStr (py ''failed''))],
          [Some (JStr (py ''processing'')), Some (JStr (py ''completed''))]}"
proof (cases "decode_message env flds")
  case Drop
  show ?thesis
    by (simp add: process_message_Drop [OF assms Drop] since_def)
next
  case (Raise e)
  obtain pid where pid: "map_of flds (py ''processing_id'') = Some pid"
    using decode_message_Raise_id [OF Raise] by blast
  show ?thesis
    by (simp add: process_message_Raise [OF assms Raise pid] since_def failed_update_def)
next
  case (Job pid f bs p)
  note id = decode_message_Job_id [OF Job]
  let ?w2 = "log (PROCESS_PDF bs f p) (update_status pid processing_update w)"
  have up2: "redis_client ?w2"
    using assms by simp
  show ?thesis
  proof (cases "process_pdf env bs f p")
    case (Inl e)
    show ?thesis
      by (simp add: process_message_Job_raise [OF assms Job Inl] since_def failed_update_def
            processing_update_def)
  next
    case (Inr r)
    from finish_message_cases [OF up2, of env m pid r]
    show ?thesis
    proof (elim disjE exE)
      fix e
      assume "finish_message env m pid r ?w2 = (Inl e, ?w2)"
      with assms Job Inr id show ?thesis
        by (simp add: process_message_def process_try_def acknowledge_message_eq since_def
              failed_update_def processing_update_def)
    next
      fix d v
      assume "finish_message env m pid r ?w2 =
                (Inr (), snd (xack m (update_status pid ((py ''status'', JStr (py ''completed'')) # d)
                   (snd (setex (py ''result:'' @ pid) 86400 v ?w2)))))"
      with assms Job Inr id show ?thesis
        by (simp add: process_message_def process_try_def since_def processing_update_def)
    qed
  qed
qed

text \<open>
  Claim C8, as the code has it.  \<open>update_processing_status\<close> merges the posted fields into
  the entry of a known job whatever its status is, a terminal one included.  While it
  processes one delivered entry, the worker posts for its job one of these sequences of
  statuses and nothing after a terminal one: none at all (the entry is dropped),
  \<open>failed\<close> alone (the payload cannot be decoded), \<open>processing\<close> then \<open>failed\<close>,
  \<open>processing\<close> then \<open>completed\<close>.
\<close>

theorem worker_status_sequences:
  "(processing_status w pid = Some entry \<longrightarrow>
      processing_status (snd (update_processing_status pid status_data w)) pid =
        Some (dict_update entry status_data) \<and>
      status_of (snd (update_processing_status pid ((py ''status'', v) # []) w)) pid = Some v) \<and>
   (redis_client w \<longrightarrow>
      map (\<lambda>x. map_of (snd x) (py ''status''))
        (posts (since w (snd (process_message env m flds w)))) \<in>
      {[], [Some (JStr (py ''failed''))],
       [Some (JStr (py ''processing'')), Some (JStr (py ''failed''))],
       [Some (JStr (py ''processing'')), Some (JStr (py ''completed''))]})"
proof -
  have a: "processing_status (snd (update_processing_status pid status_data w)) pid =
             Some (dict_update entry status_data) \<and>
           status_of (snd (update_processing_status pid ((py ''status'', v) # []) w)) pid = Some v"
    if "processing_status w pid = Some entry"
    using that by (simp add: status_of_def status_of_update)
  show ?thesis
    using a process_message_posts [of w env m flds] by blast
qed

theorem worker_status_sequences_witness:
  "processing_status finished (py ''job-1'') =
     Some (dict_update (pending_entry sample_env (py ''a.pdf'') PYPDF) (completed_status sample_result)) \<and>
   status_of (snd (update_processing_status (py ''job-1'') [(py ''status'', JStr (py ''pending''))] finished))
     (py ''job-1'') = Some (JStr (py ''pending'')) \<and>
   redis_client (queued []) \<and>
   map (\<lambda>x. map_of (snd x) (py ''status''))
     (posts (since (queued []) (snd (process_message sample_env 0 sample_fields (queued []))))) \<in>
   {[], [Some (JStr (py ''failed''))],
    [Some (JStr (py ''processing'')), Some (JStr (py ''failed''))],
    [Some (JStr (py ''processing'')), Some (JStr (py ''completed''))]}"
  using finished_fields(3) queued_fields(1) [of "[]"]
    worker_status_sequences [of finished "py ''job-1''"
      "dict_update (pending_entry sample_env (py ''a.pdf'') PYPDF) (completed_status sample_result)"
      "[]" "JStr (py ''pending'')" sample_env 0 sample_fields]
    worker_status_sequences [of "queued []" "py ''job-1''" "[]"
      "[]" "JStr (py ''pending'')" sample_env 0 sample_fields]
  by blast

text \<open>
  Claim C8 as stated fails: a post to \<open>/update-status\<close> moves the completed job \<open>job-1\<close>
  back to \<open>processing\<close>.
\<close>

theorem terminal_status_overwritten:
  "status_of finished (py ''job-1'') = Some (JStr (py ''completed'')) \<and>
   status_of (snd (update_processing_status (py ''job-1'')
                [(py ''status'', JStr (py ''processing''))] finished)) (py ''job-1'') =
     Some (JStr (py ''processing''))"
  by (simp add: status_of_def status_of_update completed_status_def completed_update_def)

subsection \<open>The successful path\<close>

lemma result_key [simp]: "py ''result'' \<noteq> py ''status''" "py ''result'' \<noteq> py ''message''"
  "py ''result'' \<noteq> py ''parser''"
  by (simp_all add: py_def)

lemma completed_path:
  assumes "redis_client w" and "decode_message env flds = Job pid f bs p"
    and "process_pdf env bs f p = Inr r" and "typed_result r"
  shows
   "fst (process_message env m flds w) = Inr () \<and>
    calls (since w (snd (process_message env m flds w))) =
      [POST_update_status pid processing_update, PROCESS_PDF bs f p,
       SETEX (py ''result:'' @ pid) 86400 (json_dumps env (JObj (stored_record r))),
       POST_update_status pid (completed_status r),
       XACK m] \<and>
    (faults w = [] \<longrightarrow>
       store (snd (process_message env m flds w)) (py ''result:'' @ pid) =
         Some (json_dumps env (JObj (stored_record r)), 86400) \<and>
       m \<notin> fst ` set (pel (snd (process_message env m flds w))) \<and>
       (processing_status w pid \<noteq> None \<longrightarrow>
          since w (snd (process_message env m flds w)) =
            [POST_update_status pid processing_update, REGISTER_UPDATE pid processing_update,
             PROCESS_PDF bs f p,
             SETEX (py ''result:'' @ pid) 86400 (json_dumps env (JObj (stored_record r))),
             POST_update_status pid (completed_status r),
             REGISTER_UPDATE pid (completed_status r),
             XACK m] \<and>
          status_of (snd (process_message env m flds w)) pid = Some (JStr (py ''completed'')) \<and>
          result_of (snd (process_message env m flds w)) pid =
            map_of (completed_status r) (py ''result'')))"
proof -
  note eq = process_message_Job_return [OF assms]
  have ret: "fst (process_message env m flds w) = Inr ()"
    by (simp add: eq)
  have calls: "calls (since w (snd (process_message env m flds w))) =
      [POST_update_status pid processing_update, PROCESS_PDF bs f p,
       SETEX (py ''result:'' @ pid) 86400 (json_dumps env (JObj (stored_record r))),
       POST_update_status pid (completed_status r),
       XACK m]"
    by (simp add: eq since_def)
  have st: "store (snd (process_message env m flds w)) (py ''result:'' @ pid) =
         Some (json_dumps env (JObj (stored_record r)), 86400)"
    if "faults w = []"
    using that by (simp add: eq next_ok_def)
  have pl: "m \<notin> fst ` set (pel (snd (process_message env m flds w)))"
    if "faults w = []"
    using that by (auto simp: eq next_ok_def)
  have tr: "since w (snd (process_message env m flds w)) =
            [POST_update_status pid processing_update, REGISTER_UPDATE pid processing_update,
             PROCESS_PDF bs f p,
             SETEX (py ''result:'' @ pid) 86400 (json_dumps env (JObj (stored_record r))),
             POST_update_status pid (completed_status r),
             REGISTER_UPDATE pid (completed_status r),
             XACK m]"
    if "faults w = []" and "processing_status w pid \<noteq> None"
    using that by (auto simp: eq since_def next_ok_def)
  have reg: "status_of (snd (process_message env m flds w)) pid = Some (JStr (py ''completed'')) \<and>
          result_of (snd (process_message env m flds w)) pid =
            map_of (completed_status r) (py ''result'')"
    if "faults w = []" and "processing_status w pid \<noteq> None"
    using that
    by (auto simp: eq next_ok_def status_of_def result_of_def completed_status_def
          completed_update_def map_of_dict_update)
  show ?thesis
    using ret calls st pl tr reg by blast
qed

text \<open>
  Claim C9, as the code has it.  When the strategy returns a result for a decoded entry,
  the worker cleans the extracted text, the markdown, the summary, the key points and the
  topics (a code point that cannot be written in UTF-8 is replaced by \<open>?\<close>, and cleaning a
  string never raises); the sentiment, the metadata and the file name are written as the
  strategy returned them.  It then issues, in this order, the \<open>SETEX\<close> of the record
  (markdown, summary, parser, file name, processing time) under \<open>result:{processing_id}\<close>
  with TTL 86400, the post of the status \<open>completed\<close> with the whole result, and only
  then the acknowledgement.  When no call fails, the record is in the store with that
  TTL, the entry has left the pending entries list and, for a known job, the register
  holds \<open>completed\<close> together with the result, written before the acknowledgement.
\<close>

theorem completed_in_order:
  assumes "redis_client w" and "decode_message env flds = Job pid f bs p"
    and "process_pdf env bs f p = Inr r" and "typed_result r"
  shows
   "(let clean_text = replace_surrogates (ext_text (extraction r));
         clean_markdown = replace_surrogates (ext_markdown (extraction r));
         clean_summary = replace_surrogates (ana_summary (analysis r));
         clean_key_points = map replace_surrogates (ana_key_points (analysis r));
         clean_topics = map replace_surrogates (ana_topics (analysis r));
         rec = [(py ''markdown'', JStr clean_markdown),
                (py ''summary'', JStr clean_summary),
                (py ''parser_used'', JStr (ParserType_value (parser_used r))),
                (py ''filename'', JStr (filename r)),
                (py ''processing_time'', JFloat (processing_time r))];
         result = JObj
           [(py ''extraction'', JObj
              [(py ''text'', JStr clean_text),
               (py ''markdown'', JStr clean_markdown),
               (py ''page_count'', JInt (ext_page_count (extraction r))),
               (py ''metadata'', ext_metadata (extraction r)),
               (py ''parser_used'', JStr (ParserType_value (ext_parser_used (extraction r))))]),
            (py ''analysis'', JObj
              [(py ''summary'', JStr clean_summary),
               (py ''key_points'', JArr (map JStr clean_key_points)),
               (py ''sentiment'',
                  (case ana_sentiment (analysis r) of None \<Rightarrow> JNull | Some t \<Rightarrow> JStr t)),
               (py ''topics'', JArr (map JStr clean_topics)),
               (py ''confidence_score'',
                  (case ana_confidence_score (analysis r) of None \<Rightarrow> JNull | Some x \<Rightarrow> JFloat x))]),
            (py ''processing_time'', JFloat (processing_time r)),
            (py ''filename'', JStr (filename r)),
            (py ''parser_used'', JStr (ParserType_value (parser_used r)))];
         processing = [(py ''status'', JStr (py ''processing'')),
                       (py ''message'', JStr (py ''Processing PDF...''))];
         completed = [(py ''status'', JStr (py ''completed'')),
                      (py ''message'', JStr (py ''PDF processing completed successfully'')),
                      (py ''parser'', JStr (ParserType_value (parser_used r))),
                      (py ''result'', result)];
         w' = snd (process_message env m flds w)
     in clean (ext_text (extraction r)) = Inr clean_text \<and>
        clean (ext_markdown (extraction r)) = Inr clean_markdown \<and>
        clean (ana_summary (analysis r)) = Inr clean_summary \<and>
        clean_all (ana_key_points (analysis r)) = Inr clean_key_points \<and>
        clean_all (ana_topics (analysis r)) = Inr clean_topics \<and>
        fst (process_message env m flds w) = Inr () \<and>
        calls (since w w') =
          [POST_update_status pid processing, PROCESS_PDF bs f p,
           SETEX (py ''result:'' @ pid) 86400 (json_dumps env (JObj rec)),
           POST_update_status pid completed,
           XACK m] \<and>
        (faults w = [] \<longrightarrow>
           store w' (py ''result:'' @ pid) = Some (json_dumps env (JObj rec), 86400) \<and>
           m \<notin> fst ` set (pel w') \<and>
           (processing_status w pid \<noteq> None \<longrightarrow>
              since w w' =
                [POST_update_status pid processing, REGISTER_UPDATE pid processing,
                 PROCESS_PDF bs f p,
                 SETEX (py ''result:'' @ pid) 86400 (json_dumps env (JObj rec)),
                 POST_update_status pid completed,
                 REGISTER_UPDATE pid completed,
                 XACK m] \<and>
              status_of w' pid = Some (JStr (py ''completed'')) \<and>
              result_of w' pid = Some result)))"
proof -
  have cl: "clean (ext_text (extraction r)) = Inr (replace_surrogates (ext_text (extraction r)))"
    "clean (ext_markdown (extraction r)) = Inr (replace_surrogates (ext_markdown (extraction r)))"
    "clean (ana_summary (analysis r)) = Inr (replace_surrogates (ana_summary (analysis r)))"
    "clean_all (ana_key_points (analysis r)) = Inr (map replace_surrogates (ana_key_points (analysis r)))"
    "clean_all (ana_topics (analysis r)) = Inr (map replace_surrogates (ana_topics (analysis r)))"
    using assms(4) by (simp_all add: typed_result_def clean_replace clean_all_replace)
  show ?thesis
    using cl completed_path [OF assms, of m]
    by (simp add: Let_def stored_record_def result_record_def completed_status_def
          completed_update_def processing_update_def opt_json_def)
qed

theorem completed_in_order_witness:
  "redis_client (queued []) \<and>
   decode_message sample_env sample_fields = Job (py ''job-1'') (JStr (py ''a.pdf'')) [37, 80] PYPDF \<and>
   process_pdf sample_env [37, 80] (JStr (py ''a.pdf'')) PYPDF = Inr sample_result \<and>
   typed_result sample_result \<and>
   faults (queued []) = [] \<and>
   processing_status (queued []) (py ''job-1'') \<noteq> None \<and>
   clean (ext_text (extraction sample_result)) = Inr [72, 63, 105] \<and>
   store (snd (process_message sample_env 0 sample_fields (queued []))) (py ''result:'' @ py ''job-1'') =
     Some (json_dumps sample_env (JObj
        [(py ''markdown'', JStr (replace_surrogates (ext_markdown (extraction sample_result)))),
         (py ''summary'', JStr (replace_surrogates (ana_summary (analysis sample_result)))),
         (py ''parser_used'', JStr (ParserType_value (parser_used sample_result))),
         (py ''filename'', JStr (filename sample_result)),
         (py ''processing_time'', JFloat (processing_time sample_result))]), 86400) \<and>
   acks (since (queued []) (snd (process_message sample_env 0 sample_fields (queued [])))) = [0] \<and>
   status_of (snd (process_message sample_env 0 sample_fields (queued []))) (py ''job-1'') =
     Some (JStr (py ''completed''))"
proof -
  have s: "replace_surrogates (ext_text (extraction sample_result)) = [72, 63, 105]"
    by (simp add: replace_surrogates_def sample_result_def is_surrogate_def)
  have q: "faults (queued []) = []" "processing_status (queued []) (py ''job-1'') \<noteq> None"
    by simp_all
  show ?thesis
    using s q queued_fields(1) [of "[]"] sample_job sample_strategy typed_sample
      completed_in_order [OF queued_fields(1) sample_job sample_strategy typed_sample,
         where fs1 = "[]" and m = 0]
    by (simp add: Let_def)
qed

lemma typed_dirty: "typed_result dirty_result"
  by (simp add: typed_result_def dirty_result_def is_str_def py_def)

lemma dirty_job:
  "decode_message dirty_env sample_fields = Job (py ''job-1'') (JStr (py ''a.pdf'')) [37, 80] PYPDF"
proof -
  have l: "json_loads dirty_env = json_loads sample_env"
    by (simp add: dirty_env_def)
  show ?thesis
    using decode_message_Job [of sample_fields "py ''job-1''" "py ''{}''" dirty_env sample_payload
        "JStr (py ''a.pdf'')" "JStr (py ''2550'')" "[37, 80]" "JStr (py ''tesseract'')"]
      sample_decode
    by (simp add: l)
qed

lemma dirty_strategy:
  "process_pdf dirty_env [37, 80] (JStr (py ''a.pdf'')) PYPDF = Inr dirty_result"
  by (simp add: dirty_env_def)

text \<open>
  Claim C9 as stated fails: not all textual outputs are cleaned.  For a result whose
  sentiment, file name and metadata hold lone surrogates, the register ends with the
  cleaned text next to the sentiment, the file name and the metadata as they were.
\<close>

theorem uncleaned_sentiment_and_file_name:
  "typed_result dirty_result \<and>
   result_of (snd (process_message dirty_env 0 sample_fields (queued []))) (py ''job-1'') =
     Some (JObj
       [(py ''extraction'', JObj
          [(py ''text'', JStr [72, 63, 105]),
           (py ''markdown'', JStr (py ''Hi'')),
           (py ''page_count'', JInt 1),
           (py ''metadata'', JObj [(py ''title'', JStr [56320])]),
           (py ''parser_used'', JStr (py ''pypdf''))]),
        (py ''analysis'', JObj
          [(py ''summary'', JStr (py ''Analysis completed'')),
           (py ''key_points'', JArr [JStr (py ''Text processed'')]),
           (py ''sentiment'', JStr [55296]),
           (py ''topics'', JArr [JStr (py ''document'')]),
           (py ''confidence_score'', JNull)]),
        (py ''processing_time'', JFloat (Float False 3 (-1))),
        (py ''filename'', JStr [97, 56320]),
        (py ''parser_used'', JStr (py ''pypdf''))])"
proof -
  have q: "faults (queued []) = []" "processing_status (queued []) (py ''job-1'') \<noteq> None"
    by simp_all
  have r: "result_of (snd (process_message dirty_env 0 sample_fields (queued []))) (py ''job-1'') =
           map_of (completed_status dirty_result) (py ''result'')"
    using completed_path [OF queued_fields(1) dirty_job dirty_strategy typed_dirty,
        where fs1 = "[]" and m = 0] q
    by simp
  have v: "map_of (completed_status dirty_result) (py ''result'') =
     Some (JObj
       [(py ''extraction'', JObj
          [(py ''text'', JStr [72, 63, 105]),
           (py ''markdown'', JStr (py ''Hi'')),
           (py ''page_count'', JInt 1),
           (py ''metadata'', JObj [(py ''title'', JStr [56320])]),
           (py ''parser_used'', JStr (py ''pypdf''))]),
        (py ''analysis'', JObj
          [(py ''summary'', JStr (py ''Analysis completed'')),
           (py ''key_points'', JArr [JStr (py ''Text processed'')]),
           (py ''sentiment'', JStr [55296]),
           (py ''topics'', JArr [JStr (py ''document'')]),
           (py ''confidence_score'', JNull)]),
        (py ''processing_time'', JFloat (Float False 3 (-1))),
        (py ''filename'', JStr [97, 56320]),
        (py ''parser_used'', JStr (py ''pypdf''))])"
    by (simp add: completed_status_def completed_update_def dirty_result_def
          replace_surrogates_def is_surrogate_def opt_json_def py_def)
  show ?thesis
    using typed_dirty by (simp only: r v simp_thms)
qed

subsection \<open>Acknowledgement\<close>

lemma process_message_shapes:
  assumes "redis_client w"
  shows
   "process_message env m flds w = (Inr (), snd (xack m w)) \<or>
    (\<exists>pid d. process_message env m flds w = (Inr (), snd (xack m (update_status pid d w)))) \<or>
    (\<exists>pid d bs f p. process_message env m flds w =
       (Inr (), snd (xack m (update_status pid d
                  (log (PROCESS_PDF bs f p) (update_status pid processing_update w)))))) \<or>
    (\<exists>pid d k v bs f p. process_message env m flds w =
       (Inr (), snd (xack m (update_status pid d
                  (snd (setex k 86400 v
                     (log (PROCESS_PDF bs f p) (update_status pid processing_update w))))))))"
proof (cases "decode_message env flds")
  case Drop
  show ?thesis
    by (simp add: process_message_Drop [OF assms Drop])
next
  case (Raise e)
  obtain pid where pid: "map_of flds (py ''processing_id'') = Some pid"
    using decode_message_Raise_id [OF Raise] by blast
  show ?thesis
    using process_message_Raise [OF assms Raise pid] by blast
next
  case (Job pid f bs p)
  note id = decode_message_Job_id [OF Job]
  let ?w2 = "log (PROCESS_PDF bs f p) (update_status pid processing_update w)"
  have up2: "redis_client ?w2"
    using assms by simp
  show ?thesis
  proof (cases "process_pdf env bs f p")
    case (Inl e)
    show ?thesis
      using process_message_Job_raise [OF assms Job Inl] by blast
  next
    case (Inr r)
    from finish_message_cases [OF up2, of env m pid r]
    show ?thesis
    proof (elim disjE exE)
      fix e
      assume "finish_message env m pid r ?w2 = (Inl e, ?w2)"
      with assms Job Inr id have
        "process_message env m flds w =
           (Inr (), snd (xack m (update_status pid (failed_update e) ?w2)))"
        by (simp add: process_message_def process_try_def acknowledge_message_eq)
      then show ?thesis by blast
    next
      fix d v
      assume "finish_message env m pid r ?w2 =
                (Inr (), snd (xack m (update_status pid ((py ''status'', JStr (py ''completed'')) # d)
                   (snd (setex (py ''result:'' @ pid) 86400 v ?w2)))))"
      with assms Job Inr id have
        "process_message env m flds w =
           (Inr (), snd (xack m (update_status pid ((py ''status'', JStr (py ''completed'')) # d)
                   (snd (setex (py ''result:'' @ pid) 86400 v ?w2)))))"
        by (simp add: process_message_def process_try_def)
      then show ?thesis by blast
    qed
  qed
qed

lemma process_message_effect:
  assumes "redis_client w"
  shows "fst (process_message env m flds w) = Inr () \<and>
         trace (snd (process_message env m flds w)) =
           trace w @ since w (snd (process_message env m flds w)) \<and>
         acks (since w (snd (process_message env m flds w))) = [m] \<and>
         deliveries (since w (snd (process_message env m flds w))) = [] \<and>
         redis_client (snd (process_message env m flds w)) \<and>
         last_delivered (snd (process_message env m flds w)) = last_delivered w \<and>
         (faults w = [] \<longrightarrow>
            faults (snd (process_message env m flds w)) = [] \<and>
            pel (snd (process_message env m flds w)) = filter (\<lambda>p. fst p \<noteq> m) (pel w))"
  using process_message_shapes [OF assms, of env m flds] assms
  by (elim disjE exE) (simp_all add: since_def next_ok_def)

lemma new_ids_range:
  "new_ids w n = [last_delivered w ..< last_delivered w + length (new_ids w n)]"
  by (cases "last_delivered w \<le> min (length (stream w)) (last_delivered w + n)")
     (simp_all add: new_ids_def)

lemma xreadgroup_fields [simp]:
  "fst (xreadgroup c n w) =
     (if next_ok w then Inr (map (\<lambda>i. (i, stream w ! i)) (new_ids w n)) else Inl broker_error)"
  "trace (snd (xreadgroup c n w)) =
     trace w @ XREADGROUP c n # (if next_ok w then map (DELIVER c) (new_ids w n) else [])"
  "faults (snd (xreadgroup c n w)) = tl (faults w)"
  "redis_client (snd (xreadgroup c n w)) = redis_client w"
  "stream (snd (xreadgroup c n w)) = stream w"
  "last_delivered (snd (xreadgroup c n w)) =
     (if next_ok w then last_delivered w + length (new_ids w n) else last_delivered w)"
  "pel (snd (xreadgroup c n w)) =
     (if next_ok w then pel w @ map (\<lambda>i. (i, c)) (new_ids w n) else pel w)"
  "store (snd (xreadgroup c n w)) = store w"
  "processing_status (snd (xreadgroup c n w)) = processing_status w"
  by (simp_all add: xreadgroup_def split_beta Let_def new_ids_def call_def log_def
        split: bool.split)

lemma worked_refl: "worked w w []"
  by (simp add: worked_def)

lemma worked_trans:
  assumes "worked w w' a" and "worked w' w'' b"
  shows "worked w w'' (a @ b)"
proof -
  obtain es where es: "trace w' = trace w @ es" "acks es = a" "deliveries es = []"
    using assms(1) by (auto simp: worked_def)
  obtain es' where es': "trace w'' = trace w' @ es'" "acks es' = b" "deliveries es' = []"
    using assms(2) by (auto simp: worked_def)
  have tr: "trace w'' = trace w @ (es @ es') \<and> acks (es @ es') = a @ b \<and>
            deliveries (es @ es') = []"
    using es es' by simp
  have fl: "filter (\<lambda>p. fst p \<notin> set b) (filter (\<lambda>p. fst p \<notin> set a) xs) =
            filter (\<lambda>p. fst p \<notin> set (a @ b)) xs" for xs :: "(nat \<times> pystr) list"
    by (induction xs) auto
  show ?thesis
    unfolding worked_def
    using tr assms fl [of "pel w"] by (auto simp: worked_def)
qed

lemma process_message_worked:
  assumes "redis_client w"
  shows "worked w (snd (process_message env m flds w)) [m]"
  unfolding worked_def
  using process_message_effect [OF assms, of env m flds] assms by auto

lemma process_messages_worked:
  "redis_client w \<Longrightarrow> worked w (snd (process_messages env msgs w)) (map fst msgs)"
proof (induction msgs arbitrary: w)
  case Nil
  show ?case by (simp add: worked_refl)
next
  case (Cons x msgs)
  obtain m flds where x: "x = (m, flds)"
    by (cases x)
  let ?w1 = "snd (process_message env m flds w)"
  have ok: "fst (process_message env m flds w) = Inr ()" and up1: "redis_client ?w1"
    using process_message_effect [OF Cons.prems, of env m flds] by simp_all
  have eq: "process_messages env (x # msgs) w = process_messages env msgs ?w1"
    using ok x by (cases "process_message env m flds w") simp
  have "worked w (snd (process_messages env msgs ?w1)) ([m] @ map fst msgs)"
    by (rule worked_trans [OF process_message_worked [OF Cons.prems] Cons.IH [OF up1]])
  then show ?case
    by (simp only: eq) (simp add: x)
qed

lemma acks_deliver [simp]: "acks (map (DELIVER c) ids) = []"
  by (induction ids) simp_all

lemma deliveries_deliver [simp]: "deliveries (map (DELIVER c) ids) = map (Pair c) ids"
  by (induction ids) simp_all

lemma stepped_quiet:
  assumes "trace w' = trace w @ es" and "deliveries es = []" and "acks es = []"
    and "last_delivered w' = last_delivered w" and "pel w' = pel w"
    and "faults w = [] \<longrightarrow> faults w' = []"
  shows "stepped w w'"
proof -
  have "trace w' = trace w @ es @ map (DELIVER consumer_name) [last_delivered w ..< last_delivered w'] @ []"
    using assms by simp
  then show ?thesis
    unfolding stepped_def using assms by (intro conjI exI [of _ es] exI [of _ consumer_name] exI [of _ "[]"]) auto
qed

lemma stepped_upload: "stepped w (snd (post_upload_pdf env u f c field w))"
proof (cases "parser_form field")
  case None
  then show ?thesis
    by (simp add: post_upload_pdf_def stepped_quiet [of _ _ "[]"])
next
  case (Some p)
  have eq: "snd (post_upload_pdf env u f c field w) = snd (upload_pdf env u f c p w)"
    using Some by (simp add: post_upload_pdf_def split_beta)
  show ?thesis
  proof (cases "endswith f (py ''.pdf'')")
    case False
    then show ?thesis
      by (simp add: eq upload_pdf_def stepped_quiet [of _ _ "[]"])
  next
    case True
    show ?thesis
      unfolding eq
      by (rule stepped_quiet
            [of _ _ "REGISTER_SET u (pending_entry env f p) #
                       (if redis_client w
                        then [XADD [(py ''processing_id'', u),
                                    (py ''data'', json_dumps env (JObj (upload_payload u f c p)))]]
                        else [])"])
         (simp_all add: upload_pdf_state [OF True] Let_def)
  qed
qed

lemma stepped_update: "stepped w (snd (update_processing_status p d w))"
  by (rule stepped_quiet
        [of _ _ "if processing_status w p = None then [] else [REGISTER_UPDATE p d]"])
     simp_all

lemma get_processing_results_state:
  "snd (get_processing_results env pid w) =
     (if redis_client w then snd (get (py ''result:'' @ pid) w) else w)"
  by (simp add: get_processing_results_def get_result_def split_beta
        split: sum.split option.split)

lemma stepped_results: "stepped w (snd (get_processing_results env pid w))"
proof (cases "redis_client w")
  case True
  show ?thesis
    by (rule stepped_quiet [of _ _ "[GET (py ''result:'' @ pid)]"])
       (simp_all add: get_processing_results_state True)
next
  case False
  show ?thesis
    by (rule stepped_quiet [of _ _ "[]"]) (simp_all add: get_processing_results_state False)
qed

lemma stepped_read:
  assumes "c \<noteq> consumer_name"
  shows "stepped w (snd (xreadgroup c n w))"
proof (cases "next_ok w")
  case False
  show ?thesis
    by (rule stepped_quiet [of _ _ "[XREADGROUP c n]"]) (simp_all add: False)
next
  case True
  let ?w' = "snd (xreadgroup c n w)"
  have ld: "last_delivered ?w' = last_delivered w + length (new_ids w n)"
    using True by simp
  have ids: "new_ids w n = [last_delivered w ..< last_delivered ?w']"
    using new_ids_range [of w n] ld by simp
  have tr: "trace ?w' = trace w @ [XREADGROUP c n] @
              map (DELIVER c) [last_delivered w ..< last_delivered ?w'] @ []"
    using True ids by simp
  have pl: "pel ?w' = pel w @ map (\<lambda>i. (i, c)) (new_ids w n)"
    using True by simp
  show ?thesis
    unfolding stepped_def
  proof (intro conjI)
    show "\<exists>es0 ca es2.
       trace ?w' = trace w @ es0 @ map (DELIVER ca) [last_delivered w..<last_delivered ?w'] @ es2 \<and>
       deliveries es0 = [] \<and> acks es0 = [] \<and> deliveries es2 = [] \<and>
       acks es2 = (if ca = consumer_name then [last_delivered w..<last_delivered ?w'] else [])"
      using tr assms
      by (intro exI [of _ "[XREADGROUP c n]"] exI [of _ c] exI [of _ "[]"]) simp
    show "last_delivered w \<le> last_delivered ?w'"
      using ld by simp
    show "faults w = [] \<and> (\<forall>p\<in>set (pel w). snd p \<noteq> consumer_name) \<longrightarrow>
          faults ?w' = [] \<and> (\<forall>p\<in>set (pel ?w'). snd p \<noteq> consumer_name)"
      using assms pl by auto
  qed
qed

lemma consume_iteration_eq:
  "consume_iteration env w =
     (if \<not> redis_client w then w
      else if \<not> next_ok w \<or> new_ids w (Suc 0) = [] then snd (xreadgroup consumer_name (Suc 0) w)
      else snd (process_messages env (map (\<lambda>i. (i, stream w ! i)) (new_ids w (Suc 0)))
                  (snd (xreadgroup consumer_name (Suc 0) w))))"
proof -
  obtain r w1 where x: "xreadgroup consumer_name (Suc 0) w = (r, w1)"
    by (cases "xreadgroup consumer_name (Suc 0) w")
  have r: "r = (if next_ok w then Inr (map (\<lambda>i. (i, stream w ! i)) (new_ids w (Suc 0)))
                else Inl broker_error)"
    using xreadgroup_fields(1) [of consumer_name "Suc 0" w] x by simp
  show ?thesis
    using x r by (simp add: consume_iteration_def read_messages_def)
qed

lemma stepped_consume: "stepped w (consume_iteration env w)"
proof -
  let ?w1 = "snd (xreadgroup consumer_name (Suc 0) w)"
  consider "\<not> redis_client w" | "redis_client w" "\<not> next_ok w"
    | "redis_client w" "next_ok w" "new_ids w (Suc 0) = []"
    | "redis_client w" "next_ok w" "new_ids w (Suc 0) \<noteq> []"
    by blast
  then show ?thesis
  proof cases
    case 1
    then show ?thesis
      by (simp add: consume_iteration_eq stepped_quiet [of _ _ "[]"])
  next
    case 2
    have "stepped w ?w1"
      by (rule stepped_quiet [of _ _ "[XREADGROUP consumer_name (Suc 0)]"]) (simp_all add: 2)
    then show ?thesis
      using 2 by (simp add: consume_iteration_eq)
  next
    case 3
    have "stepped w ?w1"
      by (rule stepped_quiet [of _ _ "[XREADGROUP consumer_name (Suc 0)]"]) (simp_all add: 3)
    then show ?thesis
      using 3 by (simp add: consume_iteration_eq)
  next
    case 4
    let ?msgs = "map (\<lambda>i. (i, stream w ! i)) (new_ids w (Suc 0))"
    let ?w' = "snd (process_messages env ?msgs ?w1)"
    have eq: "consume_iteration env w = ?w'"
      using 4 by (simp add: consume_iteration_eq)
    have up1: "redis_client ?w1"
      using 4 by simp
    have wk: "worked ?w1 ?w' (new_ids w (Suc 0))"
      using process_messages_worked [OF up1, of env ?msgs] by (simp add: comp_def)
    have ld1: "last_delivered ?w1 = last_delivered w + length (new_ids w (Suc 0))"
      using 4 by simp
    have ld': "last_delivered ?w' = last_delivered ?w1"
      using wk by (simp add: worked_def)
    have ids: "new_ids w (Suc 0) = [last_delivered w ..< last_delivered ?w']"
      using new_ids_range [of w "Suc 0"] ld1 ld' by simp
    obtain es where es: "trace ?w' = trace ?w1 @ es" "acks es = new_ids w (Suc 0)" "deliveries es = []"
      using wk by (auto simp: worked_def)
    have tr: "trace ?w' = trace w @ [XREADGROUP consumer_name (Suc 0)] @
                map (DELIVER consumer_name) [last_delivered w ..< last_delivered ?w'] @ es"
      using es(1) 4 ids by simp
    have pl: "faults ?w' = [] \<and> (\<forall>p\<in>set (pel ?w'). snd p \<noteq> consumer_name)"
      if "faults w = []" and "\<forall>p\<in>set (pel w). snd p \<noteq> consumer_name"
    proof -
      have f1: "faults ?w1 = []"
        using that(1) by simp
      have "pel ?w' = filter (\<lambda>p. fst p \<notin> set (new_ids w (Suc 0))) (pel ?w1)" and f': "faults ?w' = []"
        using wk f1 by (simp_all add: worked_def)
      then have "pel ?w' =
          filter (\<lambda>p. fst p \<notin> set (new_ids w (Suc 0)))
            (pel w @ map (\<lambda>i. (i, consumer_name)) (new_ids w (Suc 0)))"
        using 4 by simp
      then have "set (pel ?w') \<subseteq> set (pel w)"
        by auto
      with that(2) f' show ?thesis
        by blast
    qed
    show ?thesis
      unfolding eq stepped_def
    proof (intro conjI)
      show "\<exists>es0 c es2.
         trace ?w' = trace w @ es0 @ map (DELIVER c) [last_delivered w..<last_delivered ?w'] @ es2 \<and>
         deliveries es0 = [] \<and> acks es0 = [] \<and> deliveries es2 = [] \<and>
         acks es2 = (if c = consumer_name then [last_delivered w..<last_delivered ?w'] else [])"
        using tr es(2,3) ids
        by (intro exI [of _ "[XREADGROUP consumer_name (Suc 0)]"] exI [of _ consumer_name] exI [of _ es])
           simp
      show "last_delivered w \<le> last_delivered ?w'"
        using ld1 ld' by simp
      show "faults w = [] \<and> (\<forall>p\<in>set (pel w). snd p \<noteq> consumer_name) \<longrightarrow>
            faults ?w' = [] \<and> (\<forall>p\<in>set (pel ?w'). snd p \<noteq> consumer_name)"
        using pl by blast
    qed
  qed
qed

lemma stepped_step: "other_member r \<Longrightarrow> stepped w (step env r w)"
  by (cases r)
     (simp_all add: stepped_upload stepped_update stepped_results stepped_consume stepped_read)

lemma group_ok_append:
  "group_ok D A (xs @ ys) \<longleftrightarrow>
     group_ok D A xs \<and> group_ok (D \<union> snd ` set (deliveries xs)) (A \<union> set (acks xs)) ys"
  by (induction D A xs rule: group_ok.induct) auto

lemma group_ok_quiet: "deliveries es = [] \<Longrightarrow> acks es = [] \<Longrightarrow> group_ok D A es"
  by (induction D A es rule: group_ok.induct) auto

lemma group_ok_deliver:
  "distinct ids \<Longrightarrow> set ids \<inter> D = {} \<Longrightarrow> group_ok D A (map (DELIVER c) ids)"
  by (induction ids arbitrary: D) auto

lemma group_ok_acks:
  "deliveries es = [] \<Longrightarrow> distinct (acks es) \<Longrightarrow> set (acks es) \<subseteq> D \<Longrightarrow>
   set (acks es) \<inter> A = {} \<Longrightarrow> group_ok D A es"
  by (induction D A es rule: group_ok.induct) auto

lemma worker_deliveries_append [simp]:
  "worker_deliveries (xs @ ys) = worker_deliveries xs @ worker_deliveries ys"
  by (simp add: worker_deliveries_def)

lemma worker_deliveries_deliver [simp]:
  "worker_deliveries (map (DELIVER c) ids) = (if c = consumer_name then ids else [])"
  by (simp add: worker_deliveries_def comp_def)

lemma worker_deliveries_quiet: "deliveries es = [] \<Longrightarrow> worker_deliveries es = []"
  by (simp add: worker_deliveries_def)

lemma inv_stepped:
  assumes "inv w" and "stepped w w'"
  shows "inv w'"
proof -
  let ?D = "snd ` set (deliveries (trace w))" and ?A = "set (acks (trace w))"
  let ?ids = "[last_delivered w ..< last_delivered w']"
  obtain es0 c es2 where
    tr: "trace w' = trace w @ es0 @ map (DELIVER c) ?ids @ es2"
    and q0: "deliveries es0 = []" "acks es0 = []"
    and q2: "deliveries es2 = []"
    and a2: "acks es2 = (if c = consumer_name then ?ids else [])"
    using assms(2) unfolding stepped_def by blast
  have le: "last_delivered w \<le> last_delivered w'"
    using assms(2) by (simp add: stepped_def)
  have ok: "group_ok {} {} (trace w)" and D: "?D \<subseteq> {..<last_delivered w}"
    and A: "?A \<subseteq> {..<last_delivered w}"
    and eq: "acks (trace w) = worker_deliveries (trace w)"
    using assms(1) unfolding inv_def by blast+
  have g0: "group_ok ?D ?A es0"
    by (rule group_ok_quiet [OF q0])
  have g1: "group_ok ?D ?A (map (DELIVER c) ?ids)"
    using D by (intro group_ok_deliver) auto
  have g2: "group_ok (?D \<union> set ?ids) ?A es2"
    using q2 a2 A by (intro group_ok_acks) auto
  have g: "group_ok {} {} (trace w')"
    using ok g0 g1 g2 q0 by (simp add: tr group_ok_append image_Un image_image)
  have d': "snd ` set (deliveries (trace w')) \<subseteq> {..<last_delivered w'}"
    using D le q0 q2 by (auto simp: tr image_Un image_image)
  have a': "set (acks (trace w')) \<subseteq> {..<last_delivered w'}"
    using A le q0 a2 by (auto simp: tr)
  have e': "acks (trace w') = worker_deliveries (trace w')"
    using eq q0 q2 a2 by (simp add: tr worker_deliveries_quiet)
  show ?thesis
    using g d' a' e' by (simp add: inv_def)
qed

lemma run_Cons: "run env (r # rs) w = run env rs (step env r w)"
  by (simp add: run_def)

lemma inv_run:
  "inv w \<Longrightarrow> \<forall>r\<in>set rs. other_member r \<Longrightarrow> inv (run env rs w)"
proof (induction rs arbitrary: w)
  case Nil
  then show ?case by (simp add: run_def)
next
  case (Cons r rs)
  have "inv (step env r w)"
    using Cons.prems by (intro inv_stepped [OF _ stepped_step]) simp_all
  then show ?case
    using Cons by (simp add: run_Cons)
qed

lemma pel_run:
  "faults w = [] \<Longrightarrow> \<forall>p\<in>set (pel w). snd p \<noteq> consumer_name \<Longrightarrow>
   \<forall>r\<in>set rs. other_member r \<Longrightarrow>
   faults (run env rs w) = [] \<and> (\<forall>p\<in>set (pel (run env rs w)). snd p \<noteq> consumer_name)"
proof (induction rs arbitrary: w)
  case Nil
  then show ?case by (simp add: run_def)
next
  case (Cons r rs)
  have "stepped w (step env r w)"
    using Cons.prems by (intro stepped_step) simp
  then have "faults (step env r w) = [] \<and> (\<forall>p\<in>set (pel (step env r w)). snd p \<noteq> consumer_name)"
    using Cons.prems(1,2) by (simp add: stepped_def)
  then show ?case
    using Cons.IH [of "step env r w"] Cons.prems(3) by (simp add: run_Cons)
qed

text \<open>
  Claim C1.  Whatever becomes of an entry the worker has been handed (it is processed, it
  fails, it is dropped as malformed), the worker's processing of it returns and issues
  exactly one acknowledgement, for that entry.  Along every run of the service (uploads,
  status posts, result requests, passes of the worker loop, reads by other members of the
  group; any call may fail) no entry is delivered twice, so none is delivered again
  after its acknowledgement, only delivered entries are acknowledged and none twice, and
  the acknowledgements issued are exactly the entries delivered to the worker.  When no
  call fails, nothing delivered to the worker stays on the pending entries list.
\<close>

theorem acknowledged_once_never_redelivered:
  assumes "trace w = []" and "pel w = []" and "\<forall>r\<in>set rs. other_member r"
  shows
   "group_ok {} {} (trace (run env rs w)) \<and>
    acks (trace (run env rs w)) = worker_deliveries (trace (run env rs w)) \<and>
    (faults w = [] \<longrightarrow> (\<forall>p\<in>set (pel (run env rs w)). snd p \<noteq> consumer_name)) \<and>
    (redis_client v \<longrightarrow>
       fst (process_message env m flds v) = Inr () \<and>
       acks (since v (snd (process_message env m flds v))) = [m])"
proof -
  have "inv w"
    using assms(1) by (simp add: inv_def worker_deliveries_def)
  then have "inv (run env rs w)"
    using assms(3) by (rule inv_run)
  then have a: "group_ok {} {} (trace (run env rs w))"
    and b: "acks (trace (run env rs w)) = worker_deliveries (trace (run env rs w))"
    unfolding inv_def by blast+
  have c: "\<forall>p\<in>set (pel (run env rs w)). snd p \<noteq> consumer_name" if "faults w = []"
    using pel_run [OF that _ assms(3), of env] assms(2) by simp
  have d: "fst (process_message env m flds v) = Inr () \<and>
       acks (since v (snd (process_message env m flds v))) = [m]" if "redis_client v"
    using process_message_effect [OF that, of env m flds] by simp
  show ?thesis
    using a b c d by blast
qed

lemma process_message_stream:
  assumes "redis_client w"
  shows "stream (snd (process_message env m flds w)) = stream w"
  using process_message_shapes [OF assms, of env m flds]
  by (elim disjE exE) simp_all

lemma sample_upload:
  "snd (post_upload_pdf sample_env (py ''job-1'') (py ''a.pdf'') [37, 80] None (up [])) =
     snd (xadd sample_fields
            (log (REGISTER_SET (py ''job-1'') (pending_entry sample_env (py ''a.pdf'') PYPDF))
               ((up [])\<lparr>processing_status :=
                    (processing_status (up []))
                      (py ''job-1'' \<mapsto> pending_entry sample_env (py ''a.pdf'') PYPDF)\<rparr>)))"
  by (simp add: post_upload_pdf_def parser_form_def split_beta
        upload_pdf_state [OF sample_names(1)] sample_fields_def sample_env_def)

lemma sample_run_trace:
  "worker_deliveries (trace (run sample_env sample_run (up []))) = [0] \<and>
   deliveries (trace (run sample_env sample_run (up []))) = [(consumer_name, 0)]"
proof -
  let ?w1 = "snd (post_upload_pdf sample_env (py ''job-1'') (py ''a.pdf'') [37, 80] None (up []))"
  let ?w1x = "snd (xreadgroup consumer_name (Suc 0) ?w1)"
  let ?w2 = "snd (process_message sample_env 0 sample_fields ?w1x)"
  let ?w3 = "snd (xreadgroup (py ''pdf_consumer_2'') 1 ?w2)"
  have ok: "next_ok w" if "faults w = []" for w
    using that by (simp add: next_ok_def)
  have w1: "redis_client ?w1" "faults ?w1 = []" "stream ?w1 = [sample_fields]"
    "last_delivered ?w1 = 0" "deliveries (trace ?w1) = []"
    by (simp_all add: sample_upload ok)
  have ids1: "new_ids ?w1 (Suc 0) = [0]"
    by (simp add: new_ids_def w1)
  have w1x: "redis_client ?w1x" "faults ?w1x = []" "stream ?w1x = [sample_fields]"
    "last_delivered ?w1x = Suc 0" "deliveries (trace ?w1x) = [(consumer_name, 0)]"
    using w1 ids1 by (simp_all add: ok)
  note e = process_message_effect [OF w1x(1), of sample_env 0 sample_fields]
  have r2: "fst (process_message sample_env 0 sample_fields ?w1x) = Inr ()"
    using e by simp
  have c: "consume_iteration sample_env ?w1 = ?w2"
    using w1 ids1 r2 by (simp add: consume_iteration_eq ok split_beta)
  have tr2: "trace ?w2 = trace ?w1x @ since ?w1x ?w2"
    and d2: "deliveries (since ?w1x ?w2) = []"
    and l2: "last_delivered ?w2 = Suc 0" and f2: "faults ?w2 = []"
    using e w1x by simp_all
  have s2: "stream ?w2 = [sample_fields]"
    using process_message_stream [OF w1x(1), of sample_env 0 sample_fields] w1x by simp
  have ids2: "new_ids ?w2 1 = []"
    by (simp add: new_ids_def l2 s2)
  have dl2: "deliveries (trace ?w2) = [(consumer_name, 0)]"
    using w1x(5) d2 by (simp add: tr2)
  have dl3: "deliveries (trace ?w3) = [(consumer_name, 0)]"
    using dl2 ids2 by simp
  have r: "run sample_env sample_run (up []) = ?w3"
    using c by (simp add: run_def sample_run_def)
  show ?thesis
    using dl3 by (simp add: r worker_deliveries_def)
qed

theorem acknowledged_once_never_redelivered_witness:
  "trace (up []) = [] \<and> pel (up []) = [] \<and> list_all other_member sample_run \<and>
   faults (up []) = [] \<and> redis_client (up []) \<and>
   deliveries (trace (run sample_env sample_run (up []))) = [(consumer_name, 0)] \<and>
   acks (trace (run sample_env sample_run (up []))) = [0] \<and>
   group_ok {} {} (trace (run sample_env sample_run (up []))) \<and>
   consumer_name \<notin> snd ` set (pel (run sample_env sample_run (up []))) \<and>
   acks (since (up []) (snd (process_message sample_env 7 [] (up [])))) = [7]"
proof -
  have m: "\<forall>r\<in>set sample_run. other_member r"
    by (simp add: sample_run_def consumer_name_def py_def)
  have l: "list_all other_member sample_run"
    using m by (simp add: list_all_iff)
  show ?thesis
    using l sample_run_trace
      acknowledged_once_never_redelivered [OF up_fields(3) [of "[]"] up_fields(6) [of "[]"] m,
        where env = sample_env and v = "up []" and m = 7 and flds = "[]"]
    by auto
qed

end
